theory Spec2Isabelle
  imports Main "HOL-Library.Word"
begin

section \<open>Python values, exceptions and outcomes\<close>

text \<open>
  The store of \<^verbatim>\<open>plaso/storage/interface.py\<close> is an abstract base class: the
  methods below the line \<^verbatim>\<open>@abc.abstractmethod\<close> have no body there. The embedding keeps
  that shape. A store is a record of the fields \<^verbatim>\<open>BaseStore.__init__\<close> sets plus the
  state of the concrete subclass (a type parameter), and every abstract method the
  concrete methods call is a field of a record of functions that the concrete methods
  take as their first argument. Exceptions are values: a call either returns a result
  or raises, and in both cases leaves a store behind.
\<close>

type_synonym bytes = "8 word list"

datatype error =
    IOError string
  | ValueError string
  | TypeError string
  | UnicodeDecodeError string
  | UnboundLocalError string

datatype ('a, 's) outcome = Returned 'a 's | Raised error 's

text \<open>
  The format specification \<^verbatim>\<open>{0:d}\<close> of \<^verbatim>\<open>str.format\<close>: an integer in decimal,
  with a minus sign when negative.
\<close>

definition digit_char :: "nat \<Rightarrow> char" where
  "digit_char n = ''0123456789'' ! (n mod 10)"

function digits_of :: "nat \<Rightarrow> string" where
  "digits_of n = (if n < 10 then [digit_char n] else digits_of (n div 10) @ [digit_char n])"
  by pat_completeness auto
termination
  by (relation "measure id") auto

declare digits_of.simps [simp del]

definition format_d :: "int \<Rightarrow> string" where
  "format_d i = (if i < 0 then CHR ''-'' # digits_of (nat (- i)) else digits_of (nat i))"

section \<open>Attribute containers\<close>

text \<open>
  Modelled from the spec: the container classes (\<^verbatim>\<open>plaso.containers\<close>) are not among the
  sources. An attribute container has a \<^verbatim>\<open>container_type\<close> tag, a set of named
  attributes whose values are primitive scalars, and an optional identifier that the
  store assigns on the first write.
\<close>

datatype attribute_value = NoneValue | BoolValue bool | IntValue int | StrValue string

record AttributeContainer =
  CONTAINER_TYPE :: string
  container_identifier :: "nat option"
  attributes :: "(string \<times> attribute_value) list"

definition getattr :: "AttributeContainer \<Rightarrow> string \<Rightarrow> attribute_value" where
  "getattr container name =
     (case map_of (attributes container) name of None \<Rightarrow> NoneValue | Some v \<Rightarrow> v)"

text \<open>
  Modelled from the spec: the \<^verbatim>\<open>CONTAINER_TYPE\<close> constants of the container classes
  and the storage types of \<^verbatim>\<open>plaso.lib.definitions\<close>, which the source only refers to.
\<close>

definition CONTAINER_TYPE_SESSION_COMPLETION :: string where
  "CONTAINER_TYPE_SESSION_COMPLETION = ''session_completion''"

definition CONTAINER_TYPE_SESSION_CONFIGURATION :: string where
  "CONTAINER_TYPE_SESSION_CONFIGURATION = ''session_configuration''"

definition CONTAINER_TYPE_SESSION_START :: string where
  "CONTAINER_TYPE_SESSION_START = ''session_start''"

definition CONTAINER_TYPE_SYSTEM_CONFIGURATION :: string where
  "CONTAINER_TYPE_SYSTEM_CONFIGURATION = ''system_configuration''"

definition CONTAINER_TYPE_TASK_COMPLETION :: string where
  "CONTAINER_TYPE_TASK_COMPLETION = ''task_completion''"

definition CONTAINER_TYPE_TASK_START :: string where
  "CONTAINER_TYPE_TASK_START = ''task_start''"

definition STORAGE_TYPE_SESSION :: string where
  "STORAGE_TYPE_SESSION = ''session''"

definition STORAGE_TYPE_TASK :: string where
  "STORAGE_TYPE_TASK = ''task''"

text \<open>The two tuples of \<^verbatim>\<open>BaseStore\<close>, as the source lists them.\<close>

definition SESSION_STORE_ONLY_CONTAINER_TYPES :: "string list" where
  "SESSION_STORE_ONLY_CONTAINER_TYPES =
     [CONTAINER_TYPE_SESSION_COMPLETION,
      CONTAINER_TYPE_SESSION_START,
      CONTAINER_TYPE_SYSTEM_CONFIGURATION]"

definition TASK_STORE_ONLY_CONTAINER_TYPES :: "string list" where
  "TASK_STORE_ONLY_CONTAINER_TYPES =
     [CONTAINER_TYPE_TASK_COMPLETION,
      CONTAINER_TYPE_TASK_START]"

section \<open>The store\<close>

text \<open>
  Modelled from the spec: the profiler classes are not among the sources; the hook is
  \<^verbatim>\<open>start_timing\<close> and \<^verbatim>\<open>stop_timing\<close> keyed by container type. A profiler
  object is the list of the calls it has received, and \<^verbatim>\<open>None\<close> is the profiler
  that was never set.
\<close>

datatype profiler_call = StartTiming string | StopTiming string

record 'b BaseStore =
  last_session :: int
  serializers_profiler :: "profiler_call list option"
  storage_profiler :: "profiler_call list option"
  format_version :: "int option"
  serialization_format :: "string option"
  storage_type :: string
  subclass_state :: 'b

definition BaseStore_init :: "string \<Rightarrow> 'b \<Rightarrow> 'b BaseStore" where
  "BaseStore_init a_storage_type b =
     \<lparr> last_session = 0,
       serializers_profiler = None,
       storage_profiler = None,
       format_version = None,
       serialization_format = None,
       storage_type = a_storage_type,
       subclass_state = b \<rparr>"

text \<open>
  The abstract methods that the concrete methods of \<^verbatim>\<open>BaseStore\<close> call.
  \<^verbatim>\<open>_RaiseIfNotWritable\<close> only raises or returns (\<^verbatim>\<open>None\<close>: it returns);
  \<^verbatim>\<open>_WriteNewAttributeContainer\<close> may change the store and may raise;
  \<^verbatim>\<open>GetAttributeContainers\<close> is the generator of the containers of one type, as the
  list of what it yields; \<^verbatim>\<open>HasAttributeContainers\<close> is a test.
\<close>

record 'b abstract_methods =
  RaiseIfNotWritable :: "'b BaseStore \<Rightarrow> error option"
  WriteNewAttributeContainer ::
    "AttributeContainer \<Rightarrow> 'b BaseStore \<Rightarrow> (unit, 'b BaseStore) outcome"
  GetAttributeContainers :: "string \<Rightarrow> 'b BaseStore \<Rightarrow> AttributeContainer list"
  HasAttributeContainers :: "string \<Rightarrow> 'b BaseStore \<Rightarrow> bool"

definition AddAttributeContainer ::
  "'b abstract_methods \<Rightarrow> AttributeContainer \<Rightarrow> 'b BaseStore \<Rightarrow> (unit, 'b BaseStore) outcome"
where
  "AddAttributeContainer m container self =
     (case RaiseIfNotWritable m self of
        Some e \<Rightarrow> Raised e self
      | None \<Rightarrow> WriteNewAttributeContainer m container self)"

definition WriteSessionCompletion ::
  "'b abstract_methods \<Rightarrow> AttributeContainer \<Rightarrow> 'b BaseStore \<Rightarrow> (unit, 'b BaseStore) outcome"
where
  "WriteSessionCompletion m session_completion self =
     (case RaiseIfNotWritable m self of
        Some e \<Rightarrow> Raised e self
      | None \<Rightarrow>
          if storage_type self \<noteq> STORAGE_TYPE_SESSION
          then Raised (IOError ''Session completion not supported by storage type.'') self
          else WriteNewAttributeContainer m session_completion self)"

definition WriteSessionConfiguration ::
  "'b abstract_methods \<Rightarrow> AttributeContainer \<Rightarrow> 'b BaseStore \<Rightarrow> (unit, 'b BaseStore) outcome"
where
  "WriteSessionConfiguration m session_configuration self =
     (case RaiseIfNotWritable m self of
        Some e \<Rightarrow> Raised e self
      | None \<Rightarrow>
          if \<not> HasAttributeContainers m CONTAINER_TYPE_SYSTEM_CONFIGURATION self
          then WriteNewAttributeContainer m session_configuration self
          else Returned () self)"

definition WriteSessionStart ::
  "'b abstract_methods \<Rightarrow> AttributeContainer \<Rightarrow> 'b BaseStore \<Rightarrow> (unit, 'b BaseStore) outcome"
where
  "WriteSessionStart m session_start self =
     (case RaiseIfNotWritable m self of
        Some e \<Rightarrow> Raised e self
      | None \<Rightarrow>
          if storage_type self \<noteq> STORAGE_TYPE_SESSION
          then Raised (IOError ''Session start not supported by storage type.'') self
          else WriteNewAttributeContainer m session_start self)"

definition WriteTaskCompletion ::
  "'b abstract_methods \<Rightarrow> AttributeContainer \<Rightarrow> 'b BaseStore \<Rightarrow> (unit, 'b BaseStore) outcome"
where
  "WriteTaskCompletion m task_completion self =
     (case RaiseIfNotWritable m self of
        Some e \<Rightarrow> Raised e self
      | None \<Rightarrow>
          if storage_type self \<noteq> STORAGE_TYPE_TASK
          then Raised (IOError ''Task start not supported by storage type.'') self
          else WriteNewAttributeContainer m task_completion self)"

definition WriteTaskStart ::
  "'b abstract_methods \<Rightarrow> AttributeContainer \<Rightarrow> 'b BaseStore \<Rightarrow> (unit, 'b BaseStore) outcome"
where
  "WriteTaskStart m task_start self =
     (case RaiseIfNotWritable m self of
        Some e \<Rightarrow> Raised e self
      | None \<Rightarrow>
          if storage_type self \<noteq> STORAGE_TYPE_TASK
          then Raised (IOError ''Task completion not supported by storage type.'') self
          else WriteNewAttributeContainer m task_start self)"

section \<open>Serialization\<close>

text \<open>
  The serializer class (\<^verbatim>\<open>json_serializer.JSONAttributeContainerSerializer\<close>) is not
  among the sources, and \<^verbatim>\<open>bytes.decode('utf-8')\<close> is Python's: the two methods of
  the store take the three functions as a parameter. \<^verbatim>\<open>ReadSerialized\<close> may return
  \<^verbatim>\<open>None\<close>, and so may \<^verbatim>\<open>WriteSerialized\<close>, which the source tests with
  \<^verbatim>\<open>not\<close>. The serializers profiler, when one is set, records a
  \<^verbatim>\<open>StartTiming\<close> before the \<^verbatim>\<open>try\<close> and a \<^verbatim>\<open>StopTiming\<close> in the
  \<^verbatim>\<open>finally\<close>. The \<^verbatim>\<open>except\<close> clauses are tried in the source's order.
\<close>

record serializer =
  decode_utf8 :: "bytes \<Rightarrow> error + string"
  ReadSerialized :: "string \<Rightarrow> error + AttributeContainer option"
  WriteSerialized :: "AttributeContainer \<Rightarrow> error + bytes option"

definition profiler_StartTiming :: "string \<Rightarrow> 'b BaseStore \<Rightarrow> 'b BaseStore" where
  "profiler_StartTiming container_type self =
     (case serializers_profiler self of
        None \<Rightarrow> self
      | Some calls \<Rightarrow>
          self \<lparr> serializers_profiler := Some (calls @ [StartTiming container_type]) \<rparr>)"

definition profiler_StopTiming :: "string \<Rightarrow> 'b BaseStore \<Rightarrow> 'b BaseStore" where
  "profiler_StopTiming container_type self =
     (case serializers_profiler self of
        None \<Rightarrow> self
      | Some calls \<Rightarrow>
          self \<lparr> serializers_profiler := Some (calls @ [StopTiming container_type]) \<rparr>)"

definition DeserializeAttributeContainer ::
  "serializer \<Rightarrow> string \<Rightarrow> bytes option \<Rightarrow> 'b BaseStore
     \<Rightarrow> (AttributeContainer option, 'b BaseStore) outcome"
where
  "DeserializeAttributeContainer ser container_type serialized_data self =
     (case serialized_data of
        None \<Rightarrow> Returned None self
      | Some data \<Rightarrow>
          if data = [] then Returned None self
          else
            (let self1 = profiler_StartTiming container_type self;
                 tried =
                   (case decode_utf8 ser data of
                      Inl e \<Rightarrow> Inl e
                    | Inr serialized_string \<Rightarrow> ReadSerialized ser serialized_string);
                 self2 = profiler_StopTiming container_type self1
             in case tried of
                  Inl (UnicodeDecodeError msg) \<Rightarrow>
                    Raised (IOError (''Unable to decode serialized data: '' @ msg)) self2
                | Inl (TypeError msg) \<Rightarrow>
                    Raised (IOError (''Unable to read serialized data: '' @ msg)) self2
                | Inl (ValueError msg) \<Rightarrow>
                    Raised (IOError (''Unable to read serialized data: '' @ msg)) self2
                | Inl e \<Rightarrow> Raised e self2
                | Inr attribute_container \<Rightarrow> Returned attribute_container self2))"

definition SerializeAttributeContainer ::
  "serializer \<Rightarrow> AttributeContainer \<Rightarrow> 'b BaseStore \<Rightarrow> (bytes, 'b BaseStore) outcome"
where
  "SerializeAttributeContainer ser attribute_container self =
     (let self1 = profiler_StartTiming (CONTAINER_TYPE attribute_container) self;
          tried =
            (case WriteSerialized ser attribute_container of
               Inl e \<Rightarrow> Inl e
             | Inr None \<Rightarrow>
                 Inl (IOError (''Unable to serialize attribute container: ''
                               @ CONTAINER_TYPE attribute_container @ ''.''))
             | Inr (Some attribute_container_data) \<Rightarrow>
                 if attribute_container_data = []
                 then Inl (IOError (''Unable to serialize attribute container: ''
                                    @ CONTAINER_TYPE attribute_container @ ''.''))
                 else Inr attribute_container_data);
          self2 = profiler_StopTiming (CONTAINER_TYPE attribute_container) self1
      in case tried of
           Inl e \<Rightarrow> Raised e self2
         | Inr attribute_container_data \<Rightarrow> Returned attribute_container_data self2)"

section \<open>A store in memory\<close>

text \<open>
  Modelled from the spec: no concrete subclass of \<^verbatim>\<open>BaseStore\<close> is among the sources.
  This one keeps what the spec asks of any backend: a store is open or closed and
  writable or read-only, a mutating operation on a closed or read-only store fails, a
  write assigns the next identifier and appends the container, and containers of one
  type are enumerated in write order. It does no more than that; in particular its
  write looks at neither the container type nor the storage type. It gives the
  theorems about every backend a concrete instance.
\<close>

record memory_store =
  is_open :: bool
  read_only :: bool
  next_sequence_number :: nat
  containers :: "AttributeContainer list"

definition memory_RaiseIfNotWritable :: "memory_store BaseStore \<Rightarrow> error option" where
  "memory_RaiseIfNotWritable self =
     (if \<not> is_open (subclass_state self)
      then Some (IOError ''Unable to write to closed storage.'')
      else if read_only (subclass_state self)
      then Some (IOError ''Unable to write to read-only storage.'')
      else None)"

definition memory_WriteNewAttributeContainer ::
  "AttributeContainer \<Rightarrow> memory_store BaseStore \<Rightarrow> (unit, memory_store BaseStore) outcome"
where
  "memory_WriteNewAttributeContainer container self =
     (let b = subclass_state self;
          n = next_sequence_number b;
          written = container \<lparr> container_identifier := Some n \<rparr>
      in Returned ()
           (self \<lparr> subclass_state :=
              b \<lparr> next_sequence_number := Suc n, containers := containers b @ [written] \<rparr> \<rparr>))"

definition memory_GetAttributeContainers ::
  "string \<Rightarrow> memory_store BaseStore \<Rightarrow> AttributeContainer list"
where
  "memory_GetAttributeContainers container_type self =
     filter (\<lambda>c. CONTAINER_TYPE c = container_type) (containers (subclass_state self))"

definition memory_HasAttributeContainers :: "string \<Rightarrow> memory_store BaseStore \<Rightarrow> bool" where
  "memory_HasAttributeContainers container_type self =
     (memory_GetAttributeContainers container_type self \<noteq> [])"

definition memory_methods :: "memory_store abstract_methods" where
  "memory_methods =
     \<lparr> RaiseIfNotWritable = memory_RaiseIfNotWritable,
       WriteNewAttributeContainer = memory_WriteNewAttributeContainer,
       GetAttributeContainers = memory_GetAttributeContainers,
       HasAttributeContainers = memory_HasAttributeContainers \<rparr>"

definition memory_open :: "bool \<Rightarrow> bool \<Rightarrow> memory_store" where
  "memory_open opened ro =
     \<lparr> is_open = opened, read_only = ro, next_sequence_number = 0, containers = [] \<rparr>"

definition new_container :: "string \<Rightarrow> (string \<times> attribute_value) list \<Rightarrow> AttributeContainer" where
  "new_container container_type attrs =
     \<lparr> CONTAINER_TYPE = container_type, container_identifier = None, attributes = attrs \<rparr>"

section \<open>Sessions\<close>

text \<open>
  Modelled from the spec: the class \<^verbatim>\<open>sessions.Session\<close> and its three
  \<^verbatim>\<open>CopyAttributesFrom...\<close> methods are not among the sources. A session is the
  aggregate of a session-start record with its session-configuration and
  session-completion records, all sharing one session identifier; merging a
  configuration or a completion whose identifier differs from the session's is refused
  with a \<^verbatim>\<open>ValueError\<close>, which is the exception \<^verbatim>\<open>GetSessions\<close> catches around
  both calls.
\<close>

record Session =
  session_identifier :: attribute_value
  start_attributes :: "(string \<times> attribute_value) list"
  configuration_attributes :: "(string \<times> attribute_value) list option"
  completion_attributes :: "(string \<times> attribute_value) list option"

definition Session_init :: Session where
  "Session_init =
     \<lparr> session_identifier = NoneValue, start_attributes = [],
       configuration_attributes = None, completion_attributes = None \<rparr>"

definition CopyAttributesFromSessionStart :: "Session \<Rightarrow> AttributeContainer \<Rightarrow> Session" where
  "CopyAttributesFromSessionStart session session_start =
     session \<lparr> session_identifier := getattr session_start ''identifier'',
               start_attributes := attributes session_start \<rparr>"

definition CopyAttributesFromSessionConfiguration ::
  "Session \<Rightarrow> AttributeContainer \<Rightarrow> error + Session"
where
  "CopyAttributesFromSessionConfiguration session session_configuration =
     (if session_identifier session \<noteq> getattr session_configuration ''identifier''
      then Inl (ValueError ''Session identifier mismatch.'')
      else Inr (session \<lparr> configuration_attributes :=
                  Some (attributes session_configuration) \<rparr>))"

definition CopyAttributesFromSessionCompletion ::
  "Session \<Rightarrow> AttributeContainer \<Rightarrow> error + Session"
where
  "CopyAttributesFromSessionCompletion session session_completion =
     (if session_identifier session \<noteq> getattr session_completion ''identifier''
      then Inl (ValueError ''Session identifier mismatch.'')
      else Inr (session \<lparr> completion_attributes :=
                  Some (attributes session_completion) \<rparr>))"

section \<open>GetSessions\<close>

text \<open>
  A generator is the list of what it has yet to yield; \<^verbatim>\<open>next(generator)\<close> takes
  the head, and \<^verbatim>\<open>None\<close> is \<^verbatim>\<open>StopIteration\<close>. The state of the loop is the three
  generators (the third is \<^verbatim>\<open>None\<close> when the store has no session configuration)
  and the local variable \<^verbatim>\<open>session_completion\<close>, which the source assigns only
  inside the \<^verbatim>\<open>try\<close>: \<^verbatim>\<open>None\<close> is the variable before its first assignment, and
  reading it then is an \<^verbatim>\<open>UnboundLocalError\<close>. A container object is true in a
  condition, so \<^verbatim>\<open>if session_completion:\<close> with the variable assigned always merges.
  \<^verbatim>\<open>GetSessions\<close> is itself a generator: its result is the list of the sessions it
  yields and the exception that ends it, if one does.
\<close>

definition next_item :: "'a list \<Rightarrow> ('a \<times> 'a list) option" where
  "next_item generator = (case generator of [] \<Rightarrow> None | x # xs \<Rightarrow> Some (x, xs))"

record loop_state =
  session_start_generator :: "AttributeContainer list"
  session_completion_generator :: "AttributeContainer list"
  session_configuration_generator :: "AttributeContainer list option"
  session_completion :: "AttributeContainer option"

definition pull_session_completion :: "loop_state \<Rightarrow> loop_state" where
  "pull_session_completion st =
     (case next_item (session_completion_generator st) of
        None \<Rightarrow> st
      | Some (c, rest) \<Rightarrow>
          st \<lparr> session_completion_generator := rest, session_completion := Some c \<rparr>)"

definition pull_session_configuration ::
  "int \<Rightarrow> loop_state \<Rightarrow> error + (AttributeContainer option \<times> loop_state)"
where
  "pull_session_configuration session_index st =
     (case session_configuration_generator st of
        None \<Rightarrow> Inr (None, st)
      | Some generator \<Rightarrow>
          (case next_item generator of
             None \<Rightarrow>
               Inl (IOError (''Missing session configuration: '' @ format_d session_index))
           | Some (c, rest) \<Rightarrow>
               Inr (Some c, st \<lparr> session_configuration_generator := Some rest \<rparr>)))"

definition merge_session_configuration ::
  "int \<Rightarrow> AttributeContainer option \<Rightarrow> Session \<Rightarrow> error + Session"
where
  "merge_session_configuration session_index session_configuration session =
     (case session_configuration of
        None \<Rightarrow> Inr session
      | Some c \<Rightarrow>
          (case CopyAttributesFromSessionConfiguration session c of
             Inl (ValueError msg) \<Rightarrow>
               Inl (IOError (''Session identifier mismatch for session configuration: ''
                             @ format_d session_index))
           | Inl e \<Rightarrow> Inl e
           | Inr session' \<Rightarrow> Inr session'))"

definition merge_session_completion ::
  "int \<Rightarrow> AttributeContainer option \<Rightarrow> Session \<Rightarrow> error + Session"
where
  "merge_session_completion session_index a_session_completion session =
     (case a_session_completion of
        None \<Rightarrow> Inl (UnboundLocalError ''session_completion'')
      | Some c \<Rightarrow>
          (case CopyAttributesFromSessionCompletion session c of
             Inl (ValueError msg) \<Rightarrow>
               Inl (IOError (''Session identifier mismatch for session completion: ''
                             @ format_d session_index))
           | Inl e \<Rightarrow> Inl e
           | Inr session' \<Rightarrow> Inr session'))"

definition GetSessions_body :: "int \<Rightarrow> loop_state \<Rightarrow> error + (Session \<times> loop_state)" where
  "GetSessions_body session_index st =
     (case next_item (session_start_generator st) of
        None \<Rightarrow> Inl (IOError (''Missing session start: '' @ format_d session_index))
      | Some (session_start, rest) \<Rightarrow>
          (let st1 = pull_session_completion (st \<lparr> session_start_generator := rest \<rparr>)
           in case pull_session_configuration session_index st1 of
                Inl e \<Rightarrow> Inl e
              | Inr (session_configuration, st2) \<Rightarrow>
                  (let session = CopyAttributesFromSessionStart Session_init session_start
                   in case merge_session_configuration session_index session_configuration
                             session of
                        Inl e \<Rightarrow> Inl e
                      | Inr session1 \<Rightarrow>
                          (case merge_session_completion session_index
                                  (session_completion st2) session1 of
                             Inl e \<Rightarrow> Inl e
                           | Inr session2 \<Rightarrow> Inr (session2, st2)))))"

fun GetSessions_loop :: "int list \<Rightarrow> loop_state \<Rightarrow> Session list \<times> error option" where
  "GetSessions_loop [] st = ([], None)"
| "GetSessions_loop (session_index # indices) st =
     (case GetSessions_body session_index st of
        Inl e \<Rightarrow> ([], Some e)
      | Inr (session, st') \<Rightarrow>
          (case GetSessions_loop indices st' of
             (yielded, raised) \<Rightarrow> (session # yielded, raised)))"

definition GetSessions :: "'b abstract_methods \<Rightarrow> 'b BaseStore \<Rightarrow> Session list \<times> error option" where
  "GetSessions m self =
     GetSessions_loop [1 .. last_session self]
       \<lparr> session_start_generator =
           GetAttributeContainers m CONTAINER_TYPE_SESSION_START self,
         session_completion_generator =
           GetAttributeContainers m CONTAINER_TYPE_SESSION_COMPLETION self,
         session_configuration_generator =
           (if HasAttributeContainers m CONTAINER_TYPE_SESSION_CONFIGURATION self
            then Some (GetAttributeContainers m CONTAINER_TYPE_SESSION_CONFIGURATION self)
            else None),
         session_completion = None \<rparr>"


text \<open>Stores in memory that hold session records, for the concrete runs below.\<close>

definition session_record :: "string \<Rightarrow> string \<Rightarrow> int \<Rightarrow> AttributeContainer" where
  "session_record container_type ident timestamp =
     new_container container_type
       [(''identifier'', StrValue ident), (''timestamp'', IntValue timestamp)]"

definition session_store :: "int \<Rightarrow> AttributeContainer list \<Rightarrow> memory_store BaseStore" where
  "session_store n written =
     (BaseStore_init STORAGE_TYPE_SESSION
        \<lparr> is_open = True, read_only = False, next_sequence_number = length written,
          containers = written \<rparr>) \<lparr> last_session := n \<rparr>"

definition identifier_of :: "(string \<times> attribute_value) list \<Rightarrow> attribute_value" where
  "identifier_of attrs = (case map_of attrs ''identifier'' of None \<Rightarrow> NoneValue | Some v \<Rightarrow> v)"

text \<open>
  A session is matched when every record merged into it carries the session's
  identifier.
\<close>

definition records_match :: "Session \<Rightarrow> bool" where
  "records_match session =
     (identifier_of (start_attributes session) = session_identifier session
      \<and> (case configuration_attributes session of
            None \<Rightarrow> True
          | Some attrs \<Rightarrow> identifier_of attrs = session_identifier session)
      \<and> (case completion_attributes session of
            None \<Rightarrow> True
          | Some attrs \<Rightarrow> identifier_of attrs = session_identifier session))"

text \<open>
  The three generators and the unassigned variable that \<^verbatim>\<open>GetSessions\<close> starts its
  loop with, and what the iteration at position \<^verbatim>\<open>j\<close> (counted from 0, so session
  index \<^verbatim>\<open>j + 1\<close> in a call) reads from them. \<^verbatim>\<open>completion_read\<close> is the value
  of \<^verbatim>\<open>session_completion\<close> when that iteration reaches the merge: the record at
  position \<^verbatim>\<open>j\<close> of the generator, or, once the generator has run out, the last
  record it gave (the variable as it stood, if it gave none). An iteration matches when
  its start record is there and the configuration record, if the store has any, and the
  completion record it reads carry the start record's identifier; a configuration or a
  completion mismatches when the record read carries another identifier.
\<close>

definition GetSessions_generators :: "'b abstract_methods \<Rightarrow> 'b BaseStore \<Rightarrow> loop_state" where
  "GetSessions_generators m self =
     \<lparr> session_start_generator =
         GetAttributeContainers m CONTAINER_TYPE_SESSION_START self,
       session_completion_generator =
         GetAttributeContainers m CONTAINER_TYPE_SESSION_COMPLETION self,
       session_configuration_generator =
         (if HasAttributeContainers m CONTAINER_TYPE_SESSION_CONFIGURATION self
          then Some (GetAttributeContainers m CONTAINER_TYPE_SESSION_CONFIGURATION self)
          else None),
       session_completion = None \<rparr>"

definition completion_read :: "loop_state \<Rightarrow> nat \<Rightarrow> AttributeContainer option" where
  "completion_read st j =
     (if j < length (session_completion_generator st)
      then Some (session_completion_generator st ! j)
      else if session_completion_generator st = [] then session_completion st
      else Some (last (session_completion_generator st)))"

definition configuration_matches :: "loop_state \<Rightarrow> nat \<Rightarrow> bool" where
  "configuration_matches st j =
     (case session_configuration_generator st of
        None \<Rightarrow> True
      | Some g \<Rightarrow>
          j < length g
          \<and> getattr (g ! j) ''identifier''
              = getattr (session_start_generator st ! j) ''identifier'')"

definition configuration_mismatches :: "loop_state \<Rightarrow> nat \<Rightarrow> bool" where
  "configuration_mismatches st j =
     (case session_configuration_generator st of
        None \<Rightarrow> False
      | Some g \<Rightarrow>
          j < length g
          \<and> getattr (g ! j) ''identifier''
              \<noteq> getattr (session_start_generator st ! j) ''identifier'')"

definition completion_matches :: "loop_state \<Rightarrow> nat \<Rightarrow> bool" where
  "completion_matches st j =
     (case completion_read st j of
        None \<Rightarrow> False
      | Some c \<Rightarrow>
          getattr c ''identifier'' = getattr (session_start_generator st ! j) ''identifier'')"

definition completion_mismatches :: "loop_state \<Rightarrow> nat \<Rightarrow> bool" where
  "completion_mismatches st j =
     (case completion_read st j of
        None \<Rightarrow> False
      | Some c \<Rightarrow>
          getattr c ''identifier'' \<noteq> getattr (session_start_generator st ! j) ''identifier'')"

definition iteration_matches :: "loop_state \<Rightarrow> nat \<Rightarrow> bool" where
  "iteration_matches st j =
     (j < length (session_start_generator st)
      \<and> configuration_matches st j \<and> completion_matches st j)"

section \<open>The storage reader as a context manager\<close>

text \<open>
  \<^verbatim>\<open>StorageReader.Close\<close> is abstract and is a parameter. \<^verbatim>\<open>__exit__\<close> gets the
  exception that left the body, if one did (its three arguments are unused), calls
  \<^verbatim>\<open>Close\<close> and returns \<^verbatim>\<open>None\<close>, which is false: the exception is not
  suppressed.
\<close>

definition StorageReader_enter :: "'r \<Rightarrow> ('r, 'r) outcome" where
  "StorageReader_enter self = Returned self self"

definition StorageReader_exit ::
  "('r \<Rightarrow> (unit, 'r) outcome) \<Rightarrow> error option \<Rightarrow> 'r \<Rightarrow> (bool, 'r) outcome"
where
  "StorageReader_exit Close exception self =
     (case Close self of
        Returned u self' \<Rightarrow> Returned False self'
      | Raised e self' \<Rightarrow> Raised e self')"

text \<open>
  Python's \<^verbatim>\<open>with\<close> statement: \<^verbatim>\<open>__enter__\<close>, then the body with the value
  \<^verbatim>\<open>__enter__\<close> returned; when the body returns, \<^verbatim>\<open>__exit__\<close> with no exception;
  when it raises, \<^verbatim>\<open>__exit__\<close> with the exception, which is raised again unless
  \<^verbatim>\<open>__exit__\<close> returned a true value.
\<close>

definition with_statement ::
  "('r \<Rightarrow> ('v, 'r) outcome) \<Rightarrow> (error option \<Rightarrow> 'r \<Rightarrow> (bool, 'r) outcome)
     \<Rightarrow> ('v \<Rightarrow> 'r \<Rightarrow> (unit, 'r) outcome) \<Rightarrow> 'r \<Rightarrow> (unit, 'r) outcome"
where
  "with_statement enter exit body manager =
     (case enter manager of
        Raised e r \<Rightarrow> Raised e r
      | Returned v r1 \<Rightarrow>
          (case body v r1 of
             Returned u r2 \<Rightarrow>
               (case exit None r2 of
                  Returned suppress r3 \<Rightarrow> Returned () r3
                | Raised e r3 \<Rightarrow> Raised e r3)
           | Raised e r2 \<Rightarrow>
               (case exit (Some e) r2 of
                  Returned suppress r3 \<Rightarrow> if suppress then Returned () r3 else Raised e r3
                | Raised e' r3 \<Rightarrow> Raised e' r3)))"

text \<open>A reader for the concrete runs: it counts the calls of \<^verbatim>\<open>Close\<close>.\<close>

record counting_reader =
  reader_is_open :: bool
  close_calls :: nat
  reads :: nat

definition counting_Close :: "counting_reader \<Rightarrow> (unit, counting_reader) outcome" where
  "counting_Close self =
     Returned () (self \<lparr> reader_is_open := False, close_calls := Suc (close_calls self) \<rparr>)"

definition failing_body :: "counting_reader \<Rightarrow> counting_reader \<Rightarrow> (unit, counting_reader) outcome"
where
  "failing_body reader self =
     Raised (IOError ''Unable to read serialized data: truncated'')
       (self \<lparr> reads := Suc (reads self) \<rparr>)"

text \<open>
  A serializer for the concrete runs: it decodes seven-bit text only, and reads a text
  that starts with a brace.
\<close>

definition seven_bit_decode :: "bytes \<Rightarrow> error + string" where
  "seven_bit_decode data =
     (if list_all (\<lambda>b. b < 0x80) data
      then Inr (map (\<lambda>b. char_of (unat b)) data)
      else Inl (UnicodeDecodeError ''invalid start byte''))"

definition brace_ReadSerialized :: "string \<Rightarrow> error + AttributeContainer option" where
  "brace_ReadSerialized serialized_string =
     (case serialized_string of
        [] \<Rightarrow> Inr None
      | ch # rest \<Rightarrow>
          if ch = CHR ''{'' then Inr (Some (new_container rest []))
          else Inl (ValueError ''No JSON object could be decoded''))"

definition brace_WriteSerialized :: "AttributeContainer \<Rightarrow> error + bytes option" where
  "brace_WriteSerialized container =
     Inr (Some (map (\<lambda>ch. of_char ch) (CHR ''{'' # CONTAINER_TYPE container)))"

definition brace_serializer :: serializer where
  "brace_serializer =
     \<lparr> decode_utf8 = seven_bit_decode,
       ReadSerialized = brace_ReadSerialized,
       WriteSerialized = brace_WriteSerialized \<rparr>"

definition profiled_store :: "memory_store BaseStore" where
  "profiled_store =
     (BaseStore_init STORAGE_TYPE_SESSION (memory_open True False))
       \<lparr> serializers_profiler := Some [] \<rparr>"

definition store_missing_middle :: "memory_store BaseStore" where
  "store_missing_middle =
     session_store 3
       [session_record CONTAINER_TYPE_SESSION_START ''s1'' 10,
        session_record CONTAINER_TYPE_SESSION_COMPLETION ''s1'' 11,
        session_record CONTAINER_TYPE_SESSION_START ''s2'' 20,
        session_record CONTAINER_TYPE_SESSION_START ''s3'' 30,
        session_record CONTAINER_TYPE_SESSION_COMPLETION ''s3'' 31]"

definition store_second_run_crashed :: "memory_store BaseStore" where
  "store_second_run_crashed =
     session_store 3
       [session_record CONTAINER_TYPE_SESSION_START ''monday'' 100,
        session_record CONTAINER_TYPE_SESSION_START ''tuesday'' 200,
        session_record CONTAINER_TYPE_SESSION_COMPLETION ''monday'' 150,
        session_record CONTAINER_TYPE_SESSION_START ''friday'' 500,
        session_record CONTAINER_TYPE_SESSION_COMPLETION ''friday'' 550]"

definition store_two_sessions :: "memory_store BaseStore" where
  "store_two_sessions =
     session_store 2
       [session_record CONTAINER_TYPE_SESSION_START ''s1'' 10,
        session_record CONTAINER_TYPE_SESSION_CONFIGURATION ''s1'' 10,
        session_record CONTAINER_TYPE_SESSION_COMPLETION ''s1'' 11,
        session_record CONTAINER_TYPE_SESSION_START ''s2'' 20,
        session_record CONTAINER_TYPE_SESSION_CONFIGURATION ''s2'' 20,
        session_record CONTAINER_TYPE_SESSION_COMPLETION ''s2'' 21]"

definition store_configuration_mismatch :: "memory_store BaseStore" where
  "store_configuration_mismatch =
     session_store 2
       [session_record CONTAINER_TYPE_SESSION_START ''s1'' 10,
        session_record CONTAINER_TYPE_SESSION_CONFIGURATION ''s1'' 10,
        session_record CONTAINER_TYPE_SESSION_COMPLETION ''s1'' 11,
        session_record CONTAINER_TYPE_SESSION_START ''s2'' 20,
        session_record CONTAINER_TYPE_SESSION_CONFIGURATION ''s9'' 90,
        session_record CONTAINER_TYPE_SESSION_COMPLETION ''s2'' 21]"

definition store_completion_mismatch :: "memory_store BaseStore" where
  "store_completion_mismatch =
     session_store 2
       [session_record CONTAINER_TYPE_SESSION_START ''s1'' 10,
        session_record CONTAINER_TYPE_SESSION_COMPLETION ''s1'' 11,
        session_record CONTAINER_TYPE_SESSION_START ''s2'' 20,
        session_record CONTAINER_TYPE_SESSION_COMPLETION ''s7'' 71]"

definition store_no_completion :: "memory_store BaseStore" where
  "store_no_completion =
     session_store 1 [session_record CONTAINER_TYPE_SESSION_START ''s1'' 10]"

definition store_last_run_crashed :: "memory_store BaseStore" where
  "store_last_run_crashed =
     session_store 2
       [session_record CONTAINER_TYPE_SESSION_START ''s1'' 10,
        session_record CONTAINER_TYPE_SESSION_COMPLETION ''s1'' 11,
        session_record CONTAINER_TYPE_SESSION_START ''s2'' 20]"

definition session_store_0 :: "memory_store BaseStore" where
  "session_store_0 = BaseStore_init STORAGE_TYPE_SESSION (memory_open True False)"

definition task_store_0 :: "memory_store BaseStore" where
  "task_store_0 = BaseStore_init STORAGE_TYPE_TASK (memory_open True False)"

definition task_store_1 :: "memory_store BaseStore" where
  "task_store_1 =
     BaseStore_init STORAGE_TYPE_TASK
       \<lparr> is_open = True, read_only = False, next_sequence_number = 1,
         containers =
           [\<lparr> CONTAINER_TYPE = CONTAINER_TYPE_TASK_START,
              container_identifier = Some 0, attributes = [] \<rparr>] \<rparr>"

definition task_store_2 :: "memory_store BaseStore" where
  "task_store_2 =
     BaseStore_init STORAGE_TYPE_TASK
       \<lparr> is_open = True, read_only = False, next_sequence_number = 2,
         containers =
           [\<lparr> CONTAINER_TYPE = CONTAINER_TYPE_TASK_START,
              container_identifier = Some 0, attributes = [] \<rparr>,
            \<lparr> CONTAINER_TYPE = CONTAINER_TYPE_TASK_COMPLETION,
              container_identifier = Some 1, attributes = [] \<rparr>] \<rparr>"

lemmas memory_defs =
  memory_methods_def memory_RaiseIfNotWritable_def memory_WriteNewAttributeContainer_def
  memory_GetAttributeContainers_def memory_HasAttributeContainers_def memory_open_def
  BaseStore_init_def new_container_def

lemmas constant_defs =
  CONTAINER_TYPE_SESSION_COMPLETION_def CONTAINER_TYPE_SESSION_CONFIGURATION_def
  CONTAINER_TYPE_SESSION_START_def CONTAINER_TYPE_SYSTEM_CONFIGURATION_def
  CONTAINER_TYPE_TASK_COMPLETION_def CONTAINER_TYPE_TASK_START_def
  STORAGE_TYPE_SESSION_def STORAGE_TYPE_TASK_def

lemmas GetSessions_defs =
  GetSessions_body_def next_item_def pull_session_completion_def
  pull_session_configuration_def merge_session_configuration_def
  merge_session_completion_def CopyAttributesFromSessionConfiguration_def
  CopyAttributesFromSessionCompletion_def CopyAttributesFromSessionStart_def
  Session_init_def Let_def

lemmas format_defs = format_d_def digits_of.simps digit_char_def

lemmas session_store_defs = session_store_def session_record_def getattr_def

lemmas profiler_defs = profiler_StartTiming_def profiler_StopTiming_def

lemmas matches_defs =
  GetSessions_generators_def iteration_matches_def configuration_matches_def
  configuration_mismatches_def completion_matches_def completion_mismatches_def
  completion_read_def

section \<open>Writing to a store that is not writable\<close>

text \<open>
  C8. \<^verbatim>\<open>AddAttributeContainer\<close> on a store that is not writable (closed or read-only:
  the store's \<^verbatim>\<open>_RaiseIfNotWritable\<close> raises) raises that error, whatever the
  container, and the store it leaves is the store it was given: nothing was written.
\<close>

theorem AddAttributeContainer_not_writable:
  "RaiseIfNotWritable m self = Some e \<Longrightarrow>
     AddAttributeContainer m container self = Raised e self"
  by (simp add: AddAttributeContainer_def)

theorem AddAttributeContainer_not_writable_witness:
  "RaiseIfNotWritable memory_methods (BaseStore_init STORAGE_TYPE_SESSION (memory_open False False))
     = Some (IOError ''Unable to write to closed storage.'')
   \<and> AddAttributeContainer memory_methods (new_container CONTAINER_TYPE_SESSION_START [])
       (BaseStore_init STORAGE_TYPE_SESSION (memory_open False False))
     = Raised (IOError ''Unable to write to closed storage.'')
         (BaseStore_init STORAGE_TYPE_SESSION (memory_open False False))
   \<and> RaiseIfNotWritable memory_methods (BaseStore_init STORAGE_TYPE_TASK (memory_open True True))
     = Some (IOError ''Unable to write to read-only storage.'')
   \<and> AddAttributeContainer memory_methods (new_container CONTAINER_TYPE_TASK_START [])
       (BaseStore_init STORAGE_TYPE_TASK (memory_open True True))
     = Raised (IOError ''Unable to write to read-only storage.'')
         (BaseStore_init STORAGE_TYPE_TASK (memory_open True True))"
proof -
  have closed:
    "RaiseIfNotWritable memory_methods
       (BaseStore_init STORAGE_TYPE_SESSION (memory_open False False))
     = Some (IOError ''Unable to write to closed storage.'')"
    by (simp add: memory_methods_def memory_RaiseIfNotWritable_def BaseStore_init_def
        memory_open_def)
  have ro:
    "RaiseIfNotWritable memory_methods
       (BaseStore_init STORAGE_TYPE_TASK (memory_open True True))
     = Some (IOError ''Unable to write to read-only storage.'')"
    by (simp add: memory_methods_def memory_RaiseIfNotWritable_def BaseStore_init_def
        memory_open_def)
  show ?thesis
    using closed ro
      AddAttributeContainer_not_writable [OF closed]
      AddAttributeContainer_not_writable [OF ro]
    by simp
qed

section \<open>Which container types a store accepts\<close>

text \<open>
  C1, as the spec states it, fails: \<^verbatim>\<open>AddAttributeContainer\<close> compares no container
  type with the storage type. With the store in memory, a writable task store takes a
  session-start container and a writable session store takes a task-start container;
  both calls return and the container is in the store afterwards.
\<close>

theorem AddAttributeContainer_type_check_counterexample:
  "CONTAINER_TYPE_SESSION_START \<in> set SESSION_STORE_ONLY_CONTAINER_TYPES
   \<and> AddAttributeContainer memory_methods (new_container CONTAINER_TYPE_SESSION_START [])
       (BaseStore_init STORAGE_TYPE_TASK (memory_open True False))
     = Returned ()
         (BaseStore_init STORAGE_TYPE_TASK
            \<lparr> is_open = True, read_only = False, next_sequence_number = 1,
              containers =
                [\<lparr> CONTAINER_TYPE = CONTAINER_TYPE_SESSION_START,
                   container_identifier = Some 0, attributes = [] \<rparr>] \<rparr>)
   \<and> CONTAINER_TYPE_TASK_START \<in> set TASK_STORE_ONLY_CONTAINER_TYPES
   \<and> AddAttributeContainer memory_methods (new_container CONTAINER_TYPE_TASK_START [])
       (BaseStore_init STORAGE_TYPE_SESSION (memory_open True False))
     = Returned ()
         (BaseStore_init STORAGE_TYPE_SESSION
            \<lparr> is_open = True, read_only = False, next_sequence_number = 1,
              containers =
                [\<lparr> CONTAINER_TYPE = CONTAINER_TYPE_TASK_START,
                   container_identifier = Some 0, attributes = [] \<rparr>] \<rparr>)"
  by (simp add: AddAttributeContainer_def memory_defs
      SESSION_STORE_ONLY_CONTAINER_TYPES_def TASK_STORE_ONLY_CONTAINER_TYPES_def)

text \<open>
  C1, amended. \<^verbatim>\<open>AddAttributeContainer\<close> makes the writable-state check and no other:
  on a store that is writable, every container, whatever its type and whatever the
  store's storage type, is handed to \<^verbatim>\<open>_WriteNewAttributeContainer\<close>, and the outcome
  of the call is the outcome of that write. The rejections by storage type are in the
  four writers: on a writable store that is not a session store
  \<^verbatim>\<open>WriteSessionStart\<close> and \<^verbatim>\<open>WriteSessionCompletion\<close> raise an I/O error, on a
  writable store that is not a task store \<^verbatim>\<open>WriteTaskStart\<close> and
  \<^verbatim>\<open>WriteTaskCompletion\<close> do, and each leaves the store as it was.
\<close>

theorem AddAttributeContainer_writable:
  assumes "RaiseIfNotWritable m self = None"
  shows "AddAttributeContainer m container self = WriteNewAttributeContainer m container self
         \<and> (storage_type self \<noteq> STORAGE_TYPE_SESSION \<longrightarrow>
              WriteSessionStart m container self
                = Raised (IOError ''Session start not supported by storage type.'') self
              \<and> WriteSessionCompletion m container self
                = Raised (IOError ''Session completion not supported by storage type.'') self)
         \<and> (storage_type self \<noteq> STORAGE_TYPE_TASK \<longrightarrow>
              WriteTaskStart m container self
                = Raised (IOError ''Task completion not supported by storage type.'') self
              \<and> WriteTaskCompletion m container self
                = Raised (IOError ''Task start not supported by storage type.'') self)"
  using assms
  by (simp add: AddAttributeContainer_def WriteSessionStart_def WriteSessionCompletion_def
      WriteTaskStart_def WriteTaskCompletion_def)

theorem AddAttributeContainer_writable_witness:
  "RaiseIfNotWritable memory_methods task_store_0 = None
   \<and> storage_type task_store_0 \<noteq> STORAGE_TYPE_SESSION
   \<and> AddAttributeContainer memory_methods (new_container CONTAINER_TYPE_SESSION_START [])
         task_store_0
       = WriteNewAttributeContainer memory_methods
           (new_container CONTAINER_TYPE_SESSION_START []) task_store_0
   \<and> WriteNewAttributeContainer memory_methods
         (new_container CONTAINER_TYPE_SESSION_START []) task_store_0
       = Returned ()
           (BaseStore_init STORAGE_TYPE_TASK
              \<lparr> is_open = True, read_only = False, next_sequence_number = 1,
                containers =
                  [\<lparr> CONTAINER_TYPE = CONTAINER_TYPE_SESSION_START,
                     container_identifier = Some 0, attributes = [] \<rparr>] \<rparr>)
   \<and> WriteSessionStart memory_methods (new_container CONTAINER_TYPE_SESSION_START [])
         task_store_0
       = Raised (IOError ''Session start not supported by storage type.'') task_store_0
   \<and> WriteSessionCompletion memory_methods (new_container CONTAINER_TYPE_SESSION_START [])
         task_store_0
       = Raised (IOError ''Session completion not supported by storage type.'') task_store_0
   \<and> RaiseIfNotWritable memory_methods session_store_0 = None
   \<and> storage_type session_store_0 \<noteq> STORAGE_TYPE_TASK
   \<and> AddAttributeContainer memory_methods (new_container CONTAINER_TYPE_TASK_START [])
         session_store_0
       = WriteNewAttributeContainer memory_methods
           (new_container CONTAINER_TYPE_TASK_START []) session_store_0
   \<and> WriteTaskStart memory_methods (new_container CONTAINER_TYPE_TASK_START [])
         session_store_0
       = Raised (IOError ''Task completion not supported by storage type.'') session_store_0
   \<and> WriteTaskCompletion memory_methods (new_container CONTAINER_TYPE_TASK_START [])
         session_store_0
       = Raised (IOError ''Task start not supported by storage type.'') session_store_0"
proof -
  have w: "RaiseIfNotWritable memory_methods task_store_0 = None"
    by (simp add: task_store_0_def memory_defs)
  have t: "storage_type task_store_0 \<noteq> STORAGE_TYPE_SESSION"
    by (simp add: task_store_0_def memory_defs constant_defs)
  have p: "WriteNewAttributeContainer memory_methods
         (new_container CONTAINER_TYPE_SESSION_START []) task_store_0
       = Returned ()
           (BaseStore_init STORAGE_TYPE_TASK
              \<lparr> is_open = True, read_only = False, next_sequence_number = 1,
                containers =
                  [\<lparr> CONTAINER_TYPE = CONTAINER_TYPE_SESSION_START,
                     container_identifier = Some 0, attributes = [] \<rparr>] \<rparr>)"
    by (simp add: task_store_0_def memory_defs)
  have w': "RaiseIfNotWritable memory_methods session_store_0 = None"
    by (simp add: session_store_0_def memory_defs)
  have t': "storage_type session_store_0 \<noteq> STORAGE_TYPE_TASK"
    by (simp add: session_store_0_def memory_defs constant_defs)
  from w t p w' t'
    AddAttributeContainer_writable [OF w, of "new_container CONTAINER_TYPE_SESSION_START []"]
    AddAttributeContainer_writable [OF w', of "new_container CONTAINER_TYPE_TASK_START []"]
  show ?thesis
    by simp
qed

text \<open>
  C2, as the spec states it, fails: \<^verbatim>\<open>WriteSessionConfiguration\<close> does not look at the
  storage type. On a writable task store in memory that holds no system configuration
  the call returns and the session configuration is in the store afterwards, where
  \<^verbatim>\<open>WriteSessionStart\<close> on the same store raises.
\<close>

theorem WriteSessionConfiguration_rejects_counterexample:
  "storage_type task_store_0 \<noteq> STORAGE_TYPE_SESSION
   \<and> WriteSessionConfiguration memory_methods
         (new_container CONTAINER_TYPE_SESSION_CONFIGURATION []) task_store_0
       = Returned ()
           (BaseStore_init STORAGE_TYPE_TASK
              \<lparr> is_open = True, read_only = False, next_sequence_number = 1,
                containers =
                  [\<lparr> CONTAINER_TYPE = CONTAINER_TYPE_SESSION_CONFIGURATION,
                     container_identifier = Some 0, attributes = [] \<rparr>] \<rparr>)
   \<and> WriteSessionStart memory_methods (new_container CONTAINER_TYPE_SESSION_START [])
         task_store_0
       = Raised (IOError ''Session start not supported by storage type.'') task_store_0"
  by (simp add: WriteSessionConfiguration_def WriteSessionStart_def task_store_0_def
      memory_defs constant_defs)

text \<open>
  C2, amended. After the writable-state check \<^verbatim>\<open>WriteSessionConfiguration\<close> makes no
  storage-type check: on a writable store of any storage type it writes the session
  configuration when the store holds no system-configuration container and returns
  without writing when it holds one. \<^verbatim>\<open>WriteSessionStart\<close> and
  \<^verbatim>\<open>WriteSessionCompletion\<close> are the ones that reject a store that is not a session
  store, with an I/O error and the store as it was.
\<close>

theorem WriteSessionConfiguration_any_storage_type:
  assumes "RaiseIfNotWritable m self = None"
  shows "WriteSessionConfiguration m configuration_record self
           = (if HasAttributeContainers m CONTAINER_TYPE_SYSTEM_CONFIGURATION self
              then Returned () self
              else WriteNewAttributeContainer m configuration_record self)
         \<and> (storage_type self \<noteq> STORAGE_TYPE_SESSION \<longrightarrow>
              WriteSessionStart m start_record self
                = Raised (IOError ''Session start not supported by storage type.'') self
              \<and> WriteSessionCompletion m completion_record self
                = Raised (IOError ''Session completion not supported by storage type.'') self)"
  using assms
  by (simp add: WriteSessionConfiguration_def WriteSessionStart_def WriteSessionCompletion_def)

theorem WriteSessionConfiguration_any_storage_type_witness:
  "RaiseIfNotWritable memory_methods task_store_2 = None
   \<and> storage_type task_store_2 \<noteq> STORAGE_TYPE_SESSION
   \<and> \<not> HasAttributeContainers memory_methods CONTAINER_TYPE_SYSTEM_CONFIGURATION task_store_2
   \<and> WriteSessionConfiguration memory_methods
         (new_container CONTAINER_TYPE_SESSION_CONFIGURATION []) task_store_2
       = WriteNewAttributeContainer memory_methods
           (new_container CONTAINER_TYPE_SESSION_CONFIGURATION []) task_store_2
   \<and> WriteSessionStart memory_methods (new_container CONTAINER_TYPE_SESSION_START [])
         task_store_2
       = Raised (IOError ''Session start not supported by storage type.'') task_store_2
   \<and> WriteSessionCompletion memory_methods
         (new_container CONTAINER_TYPE_SESSION_COMPLETION []) task_store_2
       = Raised (IOError ''Session completion not supported by storage type.'') task_store_2"
proof -
  have w: "RaiseIfNotWritable memory_methods task_store_2 = None"
    by (simp add: task_store_2_def memory_defs)
  have t: "storage_type task_store_2 \<noteq> STORAGE_TYPE_SESSION"
    by (simp add: task_store_2_def memory_defs constant_defs)
  have h: "\<not> HasAttributeContainers memory_methods CONTAINER_TYPE_SYSTEM_CONFIGURATION
               task_store_2"
    by (simp add: task_store_2_def memory_defs constant_defs)
  from w t h
    WriteSessionConfiguration_any_storage_type [OF w,
      of "new_container CONTAINER_TYPE_SESSION_CONFIGURATION []"
         "new_container CONTAINER_TYPE_SESSION_START []"
         "new_container CONTAINER_TYPE_SESSION_COMPLETION []"]
  show ?thesis
    by simp
qed

text \<open>
  C7. On a writable store whose storage type is task, \<^verbatim>\<open>WriteTaskStart\<close> and then
  \<^verbatim>\<open>WriteTaskCompletion\<close> pass their checks and write their container (where the
  backend's write returns and leaves a writable task store, each call returns with the
  store that write left), and \<^verbatim>\<open>WriteSessionStart\<close> on the resulting store raises an
  I/O error and leaves the store as it was, without calling the backend's write.
\<close>

theorem task_store_scenario:
  assumes "storage_type self = STORAGE_TYPE_TASK"
    and "RaiseIfNotWritable m self = None"
    and "WriteNewAttributeContainer m task_start self = Returned () self1"
    and "storage_type self1 = STORAGE_TYPE_TASK"
    and "RaiseIfNotWritable m self1 = None"
    and "WriteNewAttributeContainer m task_completion self1 = Returned () self2"
    and "storage_type self2 = STORAGE_TYPE_TASK"
    and "RaiseIfNotWritable m self2 = None"
  shows "WriteTaskStart m task_start self = Returned () self1
         \<and> WriteTaskCompletion m task_completion self1 = Returned () self2
         \<and> WriteSessionStart m start_record self2
             = Raised (IOError ''Session start not supported by storage type.'') self2"
  using assms
  by (simp add: WriteTaskStart_def WriteTaskCompletion_def WriteSessionStart_def
      STORAGE_TYPE_TASK_def STORAGE_TYPE_SESSION_def)

theorem task_store_scenario_witness:
  "storage_type task_store_0 = STORAGE_TYPE_TASK
   \<and> RaiseIfNotWritable memory_methods task_store_0 = None
   \<and> WriteTaskStart memory_methods (new_container CONTAINER_TYPE_TASK_START []) task_store_0
       = Returned () task_store_1
   \<and> WriteTaskCompletion memory_methods (new_container CONTAINER_TYPE_TASK_COMPLETION [])
         task_store_1
       = Returned () task_store_2
   \<and> WriteSessionStart memory_methods (new_container CONTAINER_TYPE_SESSION_START [])
         task_store_2
       = Raised (IOError ''Session start not supported by storage type.'') task_store_2"
proof -
  have t0: "storage_type task_store_0 = STORAGE_TYPE_TASK"
    by (simp add: task_store_0_def memory_defs)
  have w0: "RaiseIfNotWritable memory_methods task_store_0 = None"
    by (simp add: task_store_0_def memory_defs)
  have s1: "WriteNewAttributeContainer memory_methods
              (new_container CONTAINER_TYPE_TASK_START []) task_store_0
            = Returned () task_store_1"
    by (simp add: task_store_0_def task_store_1_def memory_defs)
  have t1: "storage_type task_store_1 = STORAGE_TYPE_TASK"
    by (simp add: task_store_1_def memory_defs)
  have w1: "RaiseIfNotWritable memory_methods task_store_1 = None"
    by (simp add: task_store_1_def memory_defs)
  have s2: "WriteNewAttributeContainer memory_methods
              (new_container CONTAINER_TYPE_TASK_COMPLETION []) task_store_1
            = Returned () task_store_2"
    by (simp add: task_store_1_def task_store_2_def memory_defs)
  have t2: "storage_type task_store_2 = STORAGE_TYPE_TASK"
    by (simp add: task_store_2_def memory_defs)
  have w2: "RaiseIfNotWritable memory_methods task_store_2 = None"
    by (simp add: task_store_2_def memory_defs)
  from t0 w0
    task_store_scenario [OF t0 w0 s1 t1 w1 s2 t2 w2,
      of "new_container CONTAINER_TYPE_SESSION_START []"]
  show ?thesis
    by simp
qed

section \<open>Assembling the sessions\<close>

subsection \<open>What one iteration does\<close>

lemma identifier_of_attributes: "identifier_of (attributes c) = getattr c ''identifier''"
  by (simp add: identifier_of_def getattr_def)

lemma start_match:
  "records_match (CopyAttributesFromSessionStart Session_init session_start)"
  by (simp add: CopyAttributesFromSessionStart_def Session_init_def records_match_def
      identifier_of_attributes)

lemma merge_session_configuration_match:
  assumes "merge_session_configuration i cfg session = Inr session1"
    and "records_match session"
  shows "records_match session1"
  using assms
  by (auto simp: merge_session_configuration_def CopyAttributesFromSessionConfiguration_def
      records_match_def identifier_of_attributes
      split: option.splits if_splits sum.splits error.splits)

lemma merge_session_completion_match:
  assumes "merge_session_completion i var session = Inr session1"
    and "records_match session"
  shows "records_match session1"
  using assms
  by (auto simp: merge_session_completion_def CopyAttributesFromSessionCompletion_def
      records_match_def identifier_of_attributes
      split: option.splits if_splits sum.splits error.splits)

lemma merge_session_completion_completed:
  assumes "merge_session_completion i var session = Inr session1"
  shows "completion_attributes session1 \<noteq> None"
  using assms
  by (auto simp: merge_session_completion_def CopyAttributesFromSessionCompletion_def
      split: option.splits if_splits sum.splits error.splits)

lemma GetSessions_body_Inr:
  assumes "GetSessions_body i st = Inr (session, st')"
  obtains session_start cfg session1 where
    "merge_session_configuration i cfg
       (CopyAttributesFromSessionStart Session_init session_start) = Inr session1"
    and "merge_session_completion i (session_completion st') session1 = Inr session"
  using assms
  by (auto simp: GetSessions_body_def Let_def split: option.splits sum.splits prod.splits)

lemma GetSessions_body_match:
  assumes "GetSessions_body i st = Inr (session, st')"
  shows "records_match session"
proof -
  from assms obtain session_start cfg session1 where
    cfg: "merge_session_configuration i cfg
            (CopyAttributesFromSessionStart Session_init session_start) = Inr session1"
    and fin: "merge_session_completion i (session_completion st') session1 = Inr session"
    by (rule GetSessions_body_Inr)
  from cfg start_match have "records_match session1"
    by (rule merge_session_configuration_match)
  with fin show ?thesis
    by (rule merge_session_completion_match)
qed

lemma GetSessions_body_completed:
  assumes "GetSessions_body i st = Inr (session, st')"
  shows "completion_attributes session \<noteq> None"
proof -
  from assms obtain session1 where
    "merge_session_completion i (session_completion st') session1 = Inr session"
    by (rule GetSessions_body_Inr)
  then show ?thesis
    by (rule merge_session_completion_completed)
qed

subsection \<open>What the whole loop yields\<close>

text \<open>
  Every property that one iteration gives to the session it yields holds of every
  session the loop yields.
\<close>

lemma GetSessions_loop_yields:
  assumes body: "\<And>i st session st'. GetSessions_body i st = Inr (session, st') \<Longrightarrow> P session"
    and "session \<in> set (fst (GetSessions_loop indices st))"
  shows "P session"
  using assms(2)
proof (induction indices arbitrary: st)
  case Nil
  then show ?case by simp
next
  case (Cons i indices)
  show ?case
  proof (cases "GetSessions_body i st")
    case (Inl e)
    with Cons.prems show ?thesis by simp
  next
    case (Inr r)
    obtain y st' where r: "r = (y, st')" by (cases r)
    obtain ys raised where rest: "GetSessions_loop indices st' = (ys, raised)"
      by (cases "GetSessions_loop indices st'")
    from Cons.prems Inr r rest have "session = y \<or> session \<in> set ys" by simp
    then show ?thesis
    proof
      assume "session = y"
      with Inr r show ?thesis by (simp add: body)
    next
      assume "session \<in> set ys"
      with rest Cons.IH [of st'] show ?thesis by simp
    qed
  qed
qed

lemma GetSessions_loop_match:
  "session \<in> set (fst (GetSessions_loop indices st)) \<Longrightarrow> records_match session"
  by (rule GetSessions_loop_yields [where P = records_match]) (rule GetSessions_body_match)

text \<open>
  No session is yielded without completion data: the merge of the completion is reached
  in every iteration that yields.
\<close>

lemma GetSessions_loop_completed:
  "session \<in> set (fst (GetSessions_loop indices st)) \<Longrightarrow>
     completion_attributes session \<noteq> None"
  by (rule GetSessions_loop_yields [where P = "\<lambda>y. completion_attributes y \<noteq> None"])
     (rule GetSessions_body_completed)

subsection \<open>Exhausted generators\<close>

lemma GetSessions_missing_session_start:
  assumes "session_start_generator st = []"
  shows "GetSessions_loop (i # indices) st
         = ([], Some (IOError (''Missing session start: '' @ format_d i)))"
  using assms by (simp add: GetSessions_body_def next_item_def)

lemma GetSessions_missing_session_configuration:
  assumes "session_start_generator st = s # ss"
    and "session_configuration_generator st = Some []"
  shows "GetSessions_loop (i # indices) st
         = ([], Some (IOError (''Missing session configuration: '' @ format_d i)))"
  using assms
  by (simp add: GetSessions_body_def next_item_def pull_session_completion_def
      pull_session_configuration_def Let_def split: list.splits)

text \<open>
  The session-completion generator exhausted before the variable was ever assigned:
  the \<^verbatim>\<open>StopIteration\<close> is passed over, and the read of the variable raises.
\<close>

lemma GetSessions_completion_never_assigned:
  assumes "session_start_generator st = s # ss"
    and "session_completion_generator st = []"
    and "session_completion st = None"
    and "session_configuration_generator st = None"
  shows "GetSessions_loop (i # indices) st
         = ([], Some (UnboundLocalError ''session_completion''))"
  using assms
  by (simp add: GetSessions_body_def next_item_def pull_session_completion_def
      pull_session_configuration_def merge_session_configuration_def
      merge_session_completion_def Let_def)

subsection \<open>Identifier mismatches\<close>

lemma configuration_mismatch_step:
  assumes "session_start_generator st = s # ss"
    and "session_configuration_generator st = Some (c # cs)"
    and "getattr c ''identifier'' \<noteq> getattr s ''identifier''"
  shows "GetSessions_loop (i # indices) st
         = ([], Some (IOError (''Session identifier mismatch for session configuration: ''
                               @ format_d i)))"
  using assms
  by (simp add: GetSessions_body_def next_item_def pull_session_completion_def
      pull_session_configuration_def merge_session_configuration_def
      CopyAttributesFromSessionConfiguration_def CopyAttributesFromSessionStart_def
      Let_def split: list.splits)

lemma completion_mismatch_step:
  assumes "session_start_generator st = s # ss"
    and "session_configuration_generator st = None
         \<or> (\<exists>c cs. session_configuration_generator st = Some (c # cs)
                  \<and> getattr c ''identifier'' = getattr s ''identifier'')"
    and "session_completion (pull_session_completion st) = Some k"
    and "getattr k ''identifier'' \<noteq> getattr s ''identifier''"
  shows "GetSessions_loop (i # indices) st
         = ([], Some (IOError (''Session identifier mismatch for session completion: ''
                               @ format_d i)))"
  using assms
  by (auto simp add: GetSessions_body_def next_item_def pull_session_completion_def
      pull_session_configuration_def merge_session_configuration_def
      merge_session_completion_def CopyAttributesFromSessionCompletion_def
      CopyAttributesFromSessionConfiguration_def CopyAttributesFromSessionStart_def
      Let_def split: list.splits)

subsection \<open>Mismatches in a whole call\<close>

lemma GetSessions_as_loop:
  "GetSessions m self
   = GetSessions_loop [1 .. last_session self] (GetSessions_generators m self)"
  by (simp add: GetSessions_def GetSessions_generators_def)

lemma completion_read_0:
  "session_completion (pull_session_completion st) = completion_read st 0"
  by (cases "session_completion_generator st")
     (simp_all add: pull_session_completion_def next_item_def completion_read_def)

text \<open>
  An iteration that matches yields a session and leaves each generator one record
  shorter, with the variable holding the completion record it read.
\<close>

lemma matched_iteration:
  assumes "iteration_matches st 0"
  shows "\<exists>session st'. GetSessions_body i st = Inr (session, st')
           \<and> session_start_generator st' = tl (session_start_generator st)
           \<and> session_completion_generator st' = tl (session_completion_generator st)
           \<and> session_configuration_generator st'
               = map_option tl (session_configuration_generator st)
           \<and> session_completion st' = completion_read st 0"
proof -
  from assms obtain s ss where S: "session_start_generator st = s # ss"
    by (cases "session_start_generator st") (auto simp: iteration_matches_def)
  from assms obtain c where c: "completion_read st 0 = Some c"
    and cid: "getattr c ''identifier'' = getattr s ''identifier''"
    by (auto simp: iteration_matches_def completion_matches_def S split: option.splits)
  show ?thesis
  proof (cases "session_configuration_generator st")
    case None
    with S c cid show ?thesis
      by (cases "session_completion_generator st")
         (auto simp: GetSessions_defs completion_read_def split: if_splits)
  next
    case (Some g)
    with assms S obtain x xs where g: "g = x # xs"
      and xid: "getattr x ''identifier'' = getattr s ''identifier''"
      by (cases g) (auto simp: iteration_matches_def configuration_matches_def)
    with Some S c cid show ?thesis
      by (cases "session_completion_generator st")
         (auto simp: GetSessions_defs completion_read_def split: if_splits)
  qed
qed

lemma completion_read_shift:
  assumes "session_completion_generator st' = tl (session_completion_generator st)"
    and "session_completion st' = completion_read st 0"
  shows "completion_read st' j = completion_read st (Suc j)"
proof (cases "session_completion_generator st")
  case Nil
  with assms show ?thesis by (simp add: completion_read_def)
next
  case (Cons c cs)
  with assms show ?thesis by (cases cs) (auto simp: completion_read_def)
qed

lemma shift_matches:
  assumes "session_start_generator st = s # ss"
    and "session_start_generator st' = tl (session_start_generator st)"
    and "session_completion_generator st' = tl (session_completion_generator st)"
    and "session_configuration_generator st'
           = map_option tl (session_configuration_generator st)"
    and "session_completion st' = completion_read st 0"
    and "configuration_matches st 0"
  shows "iteration_matches st' j = iteration_matches st (Suc j)"
    and "configuration_matches st' j = configuration_matches st (Suc j)"
    and "configuration_mismatches st' j = configuration_mismatches st (Suc j)"
    and "completion_mismatches st' j = completion_mismatches st (Suc j)"
proof -
  have cr: "completion_read st' j = completion_read st (Suc j)"
    using assms(3,5) by (rule completion_read_shift)
  have cm: "configuration_matches st' j = configuration_matches st (Suc j)"
  proof (cases "session_configuration_generator st")
    case None
    with assms show ?thesis by (simp add: configuration_matches_def)
  next
    case (Some g)
    with assms(6) obtain x xs where "g = x # xs"
      by (cases g) (auto simp: configuration_matches_def)
    with Some assms show ?thesis by (simp add: configuration_matches_def)
  qed
  show "configuration_matches st' j = configuration_matches st (Suc j)" by (rule cm)
  show "configuration_mismatches st' j = configuration_mismatches st (Suc j)"
  proof (cases "session_configuration_generator st")
    case None
    with assms show ?thesis by (simp add: configuration_mismatches_def)
  next
    case (Some g)
    with assms(6) obtain x xs where "g = x # xs"
      by (cases g) (auto simp: configuration_matches_def)
    with Some assms show ?thesis by (simp add: configuration_mismatches_def)
  qed
  show "completion_mismatches st' j = completion_mismatches st (Suc j)"
    using assms(1,2) cr by (simp add: completion_mismatches_def split: option.splits)
  show "iteration_matches st' j = iteration_matches st (Suc j)"
    using assms(1,2) cr cm
    by (simp add: iteration_matches_def completion_matches_def split: option.splits)
qed

text \<open>
  After \<^verbatim>\<open>k\<close> iterations that match, a mismatch in the next one ends the loop with
  \<^verbatim>\<open>k\<close> sessions yielded and the I/O error for the index at position \<^verbatim>\<open>k\<close>.
\<close>

lemma loop_configuration_mismatch:
  assumes "k < length indices"
    and "\<forall>j<k. iteration_matches st j"
    and "k < length (session_start_generator st)"
    and "configuration_mismatches st k"
  shows "\<exists>yielded. GetSessions_loop indices st
           = (yielded, Some (IOError (''Session identifier mismatch for session configuration: ''
                                      @ format_d (indices ! k))))
         \<and> length yielded = k"
  using assms
proof (induction indices arbitrary: st k)
  case Nil
  then show ?case by simp
next
  case (Cons i indices)
  from Cons.prems(3) obtain s ss where S: "session_start_generator st = s # ss"
    by (cases "session_start_generator st") auto
  show ?case
  proof (cases k)
    case 0
    with Cons.prems(4) obtain g where g: "session_configuration_generator st = Some g"
      and g0: "0 < length g"
      and gid: "getattr (g ! 0) ''identifier''
                \<noteq> getattr (session_start_generator st ! 0) ''identifier''"
      by (auto simp: configuration_mismatches_def split: option.splits)
    from g0 obtain c cs where "g = c # cs" by (cases g) auto
    with g gid S have
      "session_configuration_generator st = Some (c # cs)"
      and "getattr c ''identifier'' \<noteq> getattr s ''identifier''"
      by simp_all
    with S have "GetSessions_loop (i # indices) st
         = ([], Some (IOError (''Session identifier mismatch for session configuration: ''
                               @ format_d i)))"
      by (rule configuration_mismatch_step)
    with 0 show ?thesis by simp
  next
    case (Suc k')
    with Cons.prems(2) have m0: "iteration_matches st 0" by simp
    then obtain session st' where
      body: "GetSessions_body i st = Inr (session, st')"
      and S': "session_start_generator st' = tl (session_start_generator st)"
      and C': "session_completion_generator st' = tl (session_completion_generator st)"
      and G': "session_configuration_generator st'
               = map_option tl (session_configuration_generator st)"
      and v': "session_completion st' = completion_read st 0"
      using matched_iteration [of st i] by blast
    from m0 have c0: "configuration_matches st 0" by (simp add: iteration_matches_def)
    note sh = shift_matches [OF S S' C' G' v' c0]
    have p1: "k' < length indices" using Cons.prems(1) Suc by simp
    have p2: "\<forall>j<k'. iteration_matches st' j" using Cons.prems(2) Suc by (simp add: sh)
    have p3: "k' < length (session_start_generator st')"
      using Cons.prems(3) Suc S S' by simp
    have p4: "configuration_mismatches st' k'" using Cons.prems(4) Suc by (simp add: sh)
    from Cons.IH [OF p1 p2 p3 p4] obtain yielded where
      "GetSessions_loop indices st'
         = (yielded, Some (IOError (''Session identifier mismatch for session configuration: ''
                                    @ format_d (indices ! k'))))"
      and "length yielded = k'"
      by blast
    with body Suc show ?thesis by simp
  qed
qed

lemma loop_completion_mismatch:
  assumes "k < length indices"
    and "\<forall>j<k. iteration_matches st j"
    and "k < length (session_start_generator st)"
    and "configuration_matches st k"
    and "completion_mismatches st k"
  shows "\<exists>yielded. GetSessions_loop indices st
           = (yielded, Some (IOError (''Session identifier mismatch for session completion: ''
                                      @ format_d (indices ! k))))
         \<and> length yielded = k"
  using assms
proof (induction indices arbitrary: st k)
  case Nil
  then show ?case by simp
next
  case (Cons i indices)
  from Cons.prems(3) obtain s ss where S: "session_start_generator st = s # ss"
    by (cases "session_start_generator st") auto
  show ?case
  proof (cases k)
    case 0
    have cfg:
      "session_configuration_generator st = None
       \<or> (\<exists>c cs. session_configuration_generator st = Some (c # cs)
                \<and> getattr c ''identifier'' = getattr s ''identifier'')"
    proof (cases "session_configuration_generator st")
      case None
      then show ?thesis by simp
    next
      case (Some g)
      with Cons.prems(4) 0 S have "0 < length g"
        and "getattr (g ! 0) ''identifier'' = getattr s ''identifier''"
        by (simp_all add: configuration_matches_def)
      with Some show ?thesis by (cases g) auto
    qed
    from Cons.prems(5) 0 S obtain c where
      c: "session_completion (pull_session_completion st) = Some c"
      and cid: "getattr c ''identifier'' \<noteq> getattr s ''identifier''"
      by (auto simp: completion_mismatches_def completion_read_0 split: option.splits)
    from S cfg c cid have "GetSessions_loop (i # indices) st
         = ([], Some (IOError (''Session identifier mismatch for session completion: ''
                               @ format_d i)))"
      by (rule completion_mismatch_step)
    with 0 show ?thesis by simp
  next
    case (Suc k')
    with Cons.prems(2) have m0: "iteration_matches st 0" by simp
    then obtain session st' where
      body: "GetSessions_body i st = Inr (session, st')"
      and S': "session_start_generator st' = tl (session_start_generator st)"
      and C': "session_completion_generator st' = tl (session_completion_generator st)"
      and G': "session_configuration_generator st'
               = map_option tl (session_configuration_generator st)"
      and v': "session_completion st' = completion_read st 0"
      using matched_iteration [of st i] by blast
    from m0 have c0: "configuration_matches st 0" by (simp add: iteration_matches_def)
    note sh = shift_matches [OF S S' C' G' v' c0]
    have p1: "k' < length indices" using Cons.prems(1) Suc by simp
    have p2: "\<forall>j<k'. iteration_matches st' j" using Cons.prems(2) Suc by (simp add: sh)
    have p3: "k' < length (session_start_generator st')"
      using Cons.prems(3) Suc S S' by simp
    have p4: "configuration_matches st' k'" using Cons.prems(4) Suc by (simp add: sh)
    have p5: "completion_mismatches st' k'" using Cons.prems(5) Suc by (simp add: sh)
    from Cons.IH [OF p1 p2 p3 p4 p5] obtain yielded where
      "GetSessions_loop indices st'
         = (yielded, Some (IOError (''Session identifier mismatch for session completion: ''
                                    @ format_d (indices ! k'))))"
      and "length yielded = k'"
      by blast
    with body Suc show ?thesis by simp
  qed
qed

lemma session_index:
  assumes "int k < n"
  shows "k < length [1 .. n]" and "[1 .. n] ! k = int k + 1"
  using assms by simp_all

lemma upto_1_3: "[1 .. 3::int] = [1, 2, 3]"
  by (simp add: upto.simps)

lemma upto_1_2: "[1 .. 2::int] = [1, 2]"
  by (simp add: upto.simps)

lemma upto_1_1: "[1 .. 1::int] = [1]"
  by (simp add: upto.simps)

subsection \<open>A completion record missing in the middle\<close>

text \<open>
  C3, as the spec states it, fails. The store has \<^verbatim>\<open>last_session = 3\<close>, three
  session-start records and the completion records of sessions 1 and 3 only.
  \<^verbatim>\<open>GetSessions\<close> yields one session and then raises: the second
  \<^verbatim>\<open>next(session_completion_generator)\<close> returns the completion record of session 3,
  which is merged into session 2.
\<close>

theorem GetSessions_missing_middle_counterexample:
  "last_session store_missing_middle = 3
   \<and> GetSessions memory_methods store_missing_middle
     = ([\<lparr> session_identifier = StrValue ''s1'',
           start_attributes = [(''identifier'', StrValue ''s1''), (''timestamp'', IntValue 10)],
           configuration_attributes = None,
           completion_attributes =
             Some [(''identifier'', StrValue ''s1''), (''timestamp'', IntValue 11)] \<rparr>],
        Some (IOError ''Session identifier mismatch for session completion: 2''))"
  by (simp add: store_missing_middle_def GetSessions_def upto_1_3 GetSessions_defs
      session_store_defs memory_defs constant_defs format_defs)

text \<open>
  C3, amended. For a store with \<^verbatim>\<open>last_session = 3\<close>, three session-start records,
  no session configuration and a session-completion stream that holds the records of
  sessions 1 and 3 only (the identifiers of sessions 2 and 3 differ),
  \<^verbatim>\<open>GetSessions\<close> yields session 1, populated from its start and completion records,
  and then raises the I/O error for a session identifier mismatch of the completion of
  session 2: start and completion records are paired by position.
\<close>

theorem GetSessions_missing_middle_completion:
  assumes "last_session self = 3"
    and "GetAttributeContainers m CONTAINER_TYPE_SESSION_START self = [s1, s2, s3]"
    and "GetAttributeContainers m CONTAINER_TYPE_SESSION_COMPLETION self = [c1, c3]"
    and "\<not> HasAttributeContainers m CONTAINER_TYPE_SESSION_CONFIGURATION self"
    and "getattr c1 ''identifier'' = getattr s1 ''identifier''"
    and "getattr c3 ''identifier'' = getattr s3 ''identifier''"
    and "getattr s2 ''identifier'' \<noteq> getattr s3 ''identifier''"
  shows "GetSessions m self
         = ([\<lparr> session_identifier = getattr s1 ''identifier'',
               start_attributes = attributes s1,
               configuration_attributes = None,
               completion_attributes = Some (attributes c1) \<rparr>],
            Some (IOError ''Session identifier mismatch for session completion: 2''))"
  using assms
  by (simp add: GetSessions_def upto_1_3 GetSessions_defs format_defs)

theorem GetSessions_missing_middle_completion_witness:
  "last_session store_second_run_crashed = 3
   \<and> GetAttributeContainers memory_methods CONTAINER_TYPE_SESSION_START
         store_second_run_crashed
       = [session_record CONTAINER_TYPE_SESSION_START ''monday'' 100,
          session_record CONTAINER_TYPE_SESSION_START ''tuesday'' 200,
          session_record CONTAINER_TYPE_SESSION_START ''friday'' 500]
   \<and> GetAttributeContainers memory_methods CONTAINER_TYPE_SESSION_COMPLETION
         store_second_run_crashed
       = [session_record CONTAINER_TYPE_SESSION_COMPLETION ''monday'' 150,
          session_record CONTAINER_TYPE_SESSION_COMPLETION ''friday'' 550]
   \<and> GetSessions memory_methods store_second_run_crashed
       = ([\<lparr> session_identifier = StrValue ''monday'',
             start_attributes =
               [(''identifier'', StrValue ''monday''), (''timestamp'', IntValue 100)],
             configuration_attributes = None,
             completion_attributes =
               Some [(''identifier'', StrValue ''monday''), (''timestamp'', IntValue 150)] \<rparr>],
          Some (IOError ''Session identifier mismatch for session completion: 2''))"
proof -
  have n: "last_session store_second_run_crashed = 3"
    by (simp add: store_second_run_crashed_def session_store_defs memory_defs)
  have starts:
    "GetAttributeContainers memory_methods CONTAINER_TYPE_SESSION_START
       store_second_run_crashed
     = [session_record CONTAINER_TYPE_SESSION_START ''monday'' 100,
        session_record CONTAINER_TYPE_SESSION_START ''tuesday'' 200,
        session_record CONTAINER_TYPE_SESSION_START ''friday'' 500]"
    by (simp add: store_second_run_crashed_def session_store_defs memory_defs constant_defs)
  have completions:
    "GetAttributeContainers memory_methods CONTAINER_TYPE_SESSION_COMPLETION
       store_second_run_crashed
     = [session_record CONTAINER_TYPE_SESSION_COMPLETION ''monday'' 150,
        session_record CONTAINER_TYPE_SESSION_COMPLETION ''friday'' 550]"
    by (simp add: store_second_run_crashed_def session_store_defs memory_defs constant_defs)
  have none:
    "\<not> HasAttributeContainers memory_methods CONTAINER_TYPE_SESSION_CONFIGURATION
         store_second_run_crashed"
    by (simp add: store_second_run_crashed_def session_store_defs memory_defs constant_defs)
  have i1:
    "getattr (session_record CONTAINER_TYPE_SESSION_COMPLETION ''monday'' 150) ''identifier''
     = getattr (session_record CONTAINER_TYPE_SESSION_START ''monday'' 100) ''identifier''"
    by (simp add: session_store_defs new_container_def)
  have i3:
    "getattr (session_record CONTAINER_TYPE_SESSION_COMPLETION ''friday'' 550) ''identifier''
     = getattr (session_record CONTAINER_TYPE_SESSION_START ''friday'' 500) ''identifier''"
    by (simp add: session_store_defs new_container_def)
  have i2:
    "getattr (session_record CONTAINER_TYPE_SESSION_START ''tuesday'' 200) ''identifier''
     \<noteq> getattr (session_record CONTAINER_TYPE_SESSION_START ''friday'' 500) ''identifier''"
    by (simp add: session_store_defs new_container_def)
  from n starts completions
    GetSessions_missing_middle_completion [OF n starts completions none i1 i3 i2]
  show ?thesis
    by (simp add: session_store_defs new_container_def)
qed

subsection \<open>Records of different sessions\<close>

text \<open>
  C5. \<^verbatim>\<open>GetSessions\<close> never yields a session into which a configuration or a
  completion record of another session identifier was merged: every session it yields
  is matched. And a call raises at the first mismatch: when the iterations before
  session index \<^verbatim>\<open>k + 1\<close> match, the store's \<^verbatim>\<open>last_session\<close> reaches that index
  and its start record is there, then a configuration record with another identifier
  ends the call with exactly \<^verbatim>\<open>k\<close> sessions yielded and the I/O error for a
  configuration mismatch at \<^verbatim>\<open>k + 1\<close>; and, the configuration matching, a
  completion record with another identifier ends it with exactly \<^verbatim>\<open>k\<close> sessions
  yielded and the I/O error for a completion mismatch at \<^verbatim>\<open>k + 1\<close>.
\<close>

theorem GetSessions_identifier_mismatch:
  "(\<forall>session \<in> set (fst (GetSessions m self)). records_match session)
   \<and> (int k < last_session self
        \<and> k < length (session_start_generator (GetSessions_generators m self))
        \<and> (\<forall>j<k. iteration_matches (GetSessions_generators m self) j)
        \<and> configuration_mismatches (GetSessions_generators m self) k
      \<longrightarrow> (\<exists>yielded.
             GetSessions m self
               = (yielded,
                  Some (IOError (''Session identifier mismatch for session configuration: ''
                                 @ format_d (int k + 1))))
             \<and> length yielded = k))
   \<and> (int k < last_session self
        \<and> k < length (session_start_generator (GetSessions_generators m self))
        \<and> (\<forall>j<k. iteration_matches (GetSessions_generators m self) j)
        \<and> configuration_matches (GetSessions_generators m self) k
        \<and> completion_mismatches (GetSessions_generators m self) k
      \<longrightarrow> (\<exists>yielded.
             GetSessions m self
               = (yielded,
                  Some (IOError (''Session identifier mismatch for session completion: ''
                                 @ format_d (int k + 1))))
             \<and> length yielded = k))"
proof (intro conjI ballI impI)
  fix session
  assume "session \<in> set (fst (GetSessions m self))"
  then show "records_match session"
    unfolding GetSessions_def by (rule GetSessions_loop_match)
next
  assume a: "int k < last_session self
        \<and> k < length (session_start_generator (GetSessions_generators m self))
        \<and> (\<forall>j<k. iteration_matches (GetSessions_generators m self) j)
        \<and> configuration_mismatches (GetSessions_generators m self) k"
  from a have n: "int k < last_session self" by blast
  from a have p2: "\<forall>j<k. iteration_matches (GetSessions_generators m self) j" by blast
  from a have p3: "k < length (session_start_generator (GetSessions_generators m self))"
    by blast
  from a have p4: "configuration_mismatches (GetSessions_generators m self) k" by blast
  from n have p1: "k < length [1 .. last_session self]" by (rule session_index)
  from n have ix: "[1 .. last_session self] ! k = int k + 1" by (rule session_index)
  from loop_configuration_mismatch [OF p1 p2 p3 p4] ix
  show "\<exists>yielded.
          GetSessions m self
            = (yielded,
               Some (IOError (''Session identifier mismatch for session configuration: ''
                              @ format_d (int k + 1))))
          \<and> length yielded = k"
    by (simp add: GetSessions_as_loop)
next
  assume a: "int k < last_session self
        \<and> k < length (session_start_generator (GetSessions_generators m self))
        \<and> (\<forall>j<k. iteration_matches (GetSessions_generators m self) j)
        \<and> configuration_matches (GetSessions_generators m self) k
        \<and> completion_mismatches (GetSessions_generators m self) k"
  from a have n: "int k < last_session self" by blast
  from a have p2: "\<forall>j<k. iteration_matches (GetSessions_generators m self) j" by blast
  from a have p3: "k < length (session_start_generator (GetSessions_generators m self))"
    by blast
  from a have p4: "configuration_matches (GetSessions_generators m self) k" by blast
  from a have p5: "completion_mismatches (GetSessions_generators m self) k" by blast
  from n have p1: "k < length [1 .. last_session self]" by (rule session_index)
  from n have ix: "[1 .. last_session self] ! k = int k + 1" by (rule session_index)
  from loop_completion_mismatch [OF p1 p2 p3 p4 p5] ix
  show "\<exists>yielded.
          GetSessions m self
            = (yielded,
               Some (IOError (''Session identifier mismatch for session completion: ''
                              @ format_d (int k + 1))))
          \<and> length yielded = k"
    by (simp add: GetSessions_as_loop)
qed

theorem GetSessions_identifier_mismatch_witness:
  "length (fst (GetSessions memory_methods store_two_sessions)) = 2
   \<and> list_all records_match (fst (GetSessions memory_methods store_two_sessions))
   \<and> last_session store_configuration_mismatch = 2
   \<and> iteration_matches (GetSessions_generators memory_methods store_configuration_mismatch) 0
   \<and> configuration_mismatches
       (GetSessions_generators memory_methods store_configuration_mismatch) 1
   \<and> GetSessions memory_methods store_configuration_mismatch
       = ([\<lparr> session_identifier = StrValue ''s1'',
             start_attributes =
               [(''identifier'', StrValue ''s1''), (''timestamp'', IntValue 10)],
             configuration_attributes =
               Some [(''identifier'', StrValue ''s1''), (''timestamp'', IntValue 10)],
             completion_attributes =
               Some [(''identifier'', StrValue ''s1''), (''timestamp'', IntValue 11)] \<rparr>],
          Some (IOError ''Session identifier mismatch for session configuration: 2''))
   \<and> last_session store_completion_mismatch = 2
   \<and> iteration_matches (GetSessions_generators memory_methods store_completion_mismatch) 0
   \<and> completion_mismatches
       (GetSessions_generators memory_methods store_completion_mismatch) 1
   \<and> GetSessions memory_methods store_completion_mismatch
       = ([\<lparr> session_identifier = StrValue ''s1'',
             start_attributes =
               [(''identifier'', StrValue ''s1''), (''timestamp'', IntValue 10)],
             configuration_attributes = None,
             completion_attributes =
               Some [(''identifier'', StrValue ''s1''), (''timestamp'', IntValue 11)] \<rparr>],
          Some (IOError ''Session identifier mismatch for session completion: 2''))"
proof -
  have two: "length (fst (GetSessions memory_methods store_two_sessions)) = 2"
    by (simp add: store_two_sessions_def GetSessions_def upto_1_2 GetSessions_defs
        session_store_defs memory_defs constant_defs)
  from GetSessions_identifier_mismatch
    [where m = memory_methods and self = store_two_sessions, THEN conjunct1]
  have matched: "list_all records_match (fst (GetSessions memory_methods store_two_sessions))"
    by (simp add: list_all_iff)
  have n1: "last_session store_configuration_mismatch = 2"
    by (simp add: store_configuration_mismatch_def session_store_defs memory_defs)
  have s1: "1 < length (session_start_generator
                  (GetSessions_generators memory_methods store_configuration_mismatch))"
    by (simp add: store_configuration_mismatch_def matches_defs session_store_defs
        memory_defs constant_defs)
  have m1: "iteration_matches
              (GetSessions_generators memory_methods store_configuration_mismatch) 0"
    by (simp add: store_configuration_mismatch_def matches_defs session_store_defs
        memory_defs constant_defs)
  have x1: "configuration_mismatches
              (GetSessions_generators memory_methods store_configuration_mismatch) 1"
    by (simp add: store_configuration_mismatch_def matches_defs session_store_defs
        memory_defs constant_defs)
  have "\<exists>yielded.
          GetSessions memory_methods store_configuration_mismatch
            = (yielded,
               Some (IOError (''Session identifier mismatch for session configuration: ''
                              @ format_d (int 1 + 1))))
          \<and> length yielded = 1"
    by (rule GetSessions_identifier_mismatch
        [where m = memory_methods and self = store_configuration_mismatch and k = 1,
         THEN conjunct2, THEN conjunct1, THEN mp])
       (use n1 s1 m1 x1 in simp)
  then obtain y1 where r1:
    "GetSessions memory_methods store_configuration_mismatch
       = (y1, Some (IOError ''Session identifier mismatch for session configuration: 2''))"
    and l1: "length y1 = 1"
    by (auto simp: format_defs)
  have e1: "fst (GetSessions memory_methods store_configuration_mismatch)
       = [\<lparr> session_identifier = StrValue ''s1'',
             start_attributes =
               [(''identifier'', StrValue ''s1''), (''timestamp'', IntValue 10)],
             configuration_attributes =
               Some [(''identifier'', StrValue ''s1''), (''timestamp'', IntValue 10)],
             completion_attributes =
               Some [(''identifier'', StrValue ''s1''), (''timestamp'', IntValue 11)] \<rparr>]"
    by (simp add: store_configuration_mismatch_def GetSessions_def upto_1_2 GetSessions_defs
        session_store_defs memory_defs constant_defs)
  have n2: "last_session store_completion_mismatch = 2"
    by (simp add: store_completion_mismatch_def session_store_defs memory_defs)
  have s2: "1 < length (session_start_generator
                  (GetSessions_generators memory_methods store_completion_mismatch))"
    by (simp add: store_completion_mismatch_def matches_defs session_store_defs
        memory_defs constant_defs)
  have m2: "iteration_matches
              (GetSessions_generators memory_methods store_completion_mismatch) 0"
    by (simp add: store_completion_mismatch_def matches_defs session_store_defs
        memory_defs constant_defs)
  have c2: "configuration_matches
              (GetSessions_generators memory_methods store_completion_mismatch) 1"
    by (simp add: store_completion_mismatch_def matches_defs session_store_defs
        memory_defs constant_defs)
  have x2: "completion_mismatches
              (GetSessions_generators memory_methods store_completion_mismatch) 1"
    by (simp add: store_completion_mismatch_def matches_defs session_store_defs
        memory_defs constant_defs)
  have "\<exists>yielded.
          GetSessions memory_methods store_completion_mismatch
            = (yielded,
               Some (IOError (''Session identifier mismatch for session completion: ''
                              @ format_d (int 1 + 1))))
          \<and> length yielded = 1"
    by (rule GetSessions_identifier_mismatch
        [where m = memory_methods and self = store_completion_mismatch and k = 1,
         THEN conjunct2, THEN conjunct2, THEN mp])
       (use n2 s2 m2 c2 x2 in simp)
  then obtain y2 where r2:
    "GetSessions memory_methods store_completion_mismatch
       = (y2, Some (IOError ''Session identifier mismatch for session completion: 2''))"
    and l2: "length y2 = 1"
    by (auto simp: format_defs)
  have e2: "fst (GetSessions memory_methods store_completion_mismatch)
       = [\<lparr> session_identifier = StrValue ''s1'',
             start_attributes =
               [(''identifier'', StrValue ''s1''), (''timestamp'', IntValue 10)],
             configuration_attributes = None,
             completion_attributes =
               Some [(''identifier'', StrValue ''s1''), (''timestamp'', IntValue 11)] \<rparr>]"
    by (simp add: store_completion_mismatch_def GetSessions_def upto_1_2 GetSessions_defs
        session_store_defs memory_defs constant_defs)
  from two matched n1 m1 x1 r1 e1 n2 m2 x2 r2 e2 show ?thesis
    by simp
qed

subsection \<open>A completion generator that runs out\<close>

text \<open>
  C6, on the code. The exhaustion of the session-start generator and of an existing
  session-configuration generator raise as the claim says
  (\<^verbatim>\<open>GetSessions_missing_session_start\<close>, \<^verbatim>\<open>GetSessions_missing_session_configuration\<close>
  above). The exhaustion of the session-completion generator does raise, though not at
  the \<^verbatim>\<open>next\<close>: the variable \<^verbatim>\<open>session_completion\<close> is not reset. With one
  session-start record and no completion record the read of the variable raises
  \<^verbatim>\<open>UnboundLocalError\<close>; with two session-start records and the completion of the
  first only, the first completion is merged again into the second session and the call
  raises the I/O error for a mismatch.
\<close>

theorem GetSessions_completion_exhausted_raises:
  "GetSessions memory_methods store_no_completion
     = ([], Some (UnboundLocalError ''session_completion''))
   \<and> GetSessions memory_methods store_last_run_crashed
     = ([\<lparr> session_identifier = StrValue ''s1'',
           start_attributes = [(''identifier'', StrValue ''s1''), (''timestamp'', IntValue 10)],
           configuration_attributes = None,
           completion_attributes =
             Some [(''identifier'', StrValue ''s1''), (''timestamp'', IntValue 11)] \<rparr>],
        Some (IOError ''Session identifier mismatch for session completion: 2''))"
  by (simp add: store_no_completion_def store_last_run_crashed_def GetSessions_def
      upto_1_1 upto_1_2 GetSessions_defs session_store_defs memory_defs constant_defs
      format_defs)

section \<open>Deserializing\<close>

lemma DeserializeAttributeContainer_nonempty:
  assumes "data \<noteq> []"
  shows "DeserializeAttributeContainer ser container_type (Some data) self
         = (let self2 = profiler_StopTiming container_type
                          (profiler_StartTiming container_type self)
            in case (case decode_utf8 ser data of
                       Inl e \<Rightarrow> Inl e
                     | Inr serialized_string \<Rightarrow> ReadSerialized ser serialized_string) of
                 Inl (UnicodeDecodeError msg) \<Rightarrow>
                   Raised (IOError (''Unable to decode serialized data: '' @ msg)) self2
               | Inl (TypeError msg) \<Rightarrow>
                   Raised (IOError (''Unable to read serialized data: '' @ msg)) self2
               | Inl (ValueError msg) \<Rightarrow>
                   Raised (IOError (''Unable to read serialized data: '' @ msg)) self2
               | Inl e \<Rightarrow> Raised e self2
               | Inr attribute_container \<Rightarrow> Returned attribute_container self2)"
  using assms by (simp add: DeserializeAttributeContainer_def Let_def)

text \<open>
  For a serializer that reads back what it wrote, the two methods of the store do so
  too, and each records one start and one stop with the profiler.
\<close>

lemma serialize_then_deserialize:
  assumes "WriteSerialized ser container = Inr (Some data)"
    and "data \<noteq> []"
    and "decode_utf8 ser data = Inr serialized_string"
    and "ReadSerialized ser serialized_string = Inr (Some container)"
  shows "SerializeAttributeContainer ser container self
           = Returned data
               (profiler_StopTiming (CONTAINER_TYPE container)
                  (profiler_StartTiming (CONTAINER_TYPE container) self))"
    and "DeserializeAttributeContainer ser container_type (Some data) self'
           = Returned (Some container)
               (profiler_StopTiming container_type
                  (profiler_StartTiming container_type self'))"
  using assms
  by (simp_all add: SerializeAttributeContainer_def DeserializeAttributeContainer_nonempty
      Let_def)

text \<open>
  C10. For every container type, \<^verbatim>\<open>_DeserializeAttributeContainer\<close> given \<^verbatim>\<open>None\<close>
  or empty data returns \<^verbatim>\<open>None\<close> and leaves the store, its serializers profiler
  included, as it was: nothing is raised and the profiler is not called. Data that is
  not empty and that \<^verbatim>\<open>decode\<close> refuses, or that \<^verbatim>\<open>ReadSerialized\<close> refuses with
  a \<^verbatim>\<open>ValueError\<close> or a \<^verbatim>\<open>TypeError\<close>, raises an I/O error, after a start and a
  stop of the profiler when one is set.
\<close>

theorem DeserializeAttributeContainer_empty:
  "DeserializeAttributeContainer ser container_type None self = Returned None self
   \<and> DeserializeAttributeContainer ser container_type (Some []) self = Returned None self
   \<and> (data \<noteq> [] \<and> decode_utf8 ser data = Inl (UnicodeDecodeError msg)
      \<longrightarrow> DeserializeAttributeContainer ser container_type (Some data) self
            = Raised (IOError (''Unable to decode serialized data: '' @ msg))
                (profiler_StopTiming container_type
                   (profiler_StartTiming container_type self)))
   \<and> (data \<noteq> [] \<and> decode_utf8 ser data = Inr serialized_string
        \<and> (ReadSerialized ser serialized_string = Inl (ValueError msg)
           \<or> ReadSerialized ser serialized_string = Inl (TypeError msg))
      \<longrightarrow> DeserializeAttributeContainer ser container_type (Some data) self
            = Raised (IOError (''Unable to read serialized data: '' @ msg))
                (profiler_StopTiming container_type
                   (profiler_StartTiming container_type self)))"
proof (intro conjI impI)
  show "DeserializeAttributeContainer ser container_type None self = Returned None self"
    by (simp add: DeserializeAttributeContainer_def)
  show "DeserializeAttributeContainer ser container_type (Some []) self = Returned None self"
    by (simp add: DeserializeAttributeContainer_def)
next
  assume "data \<noteq> [] \<and> decode_utf8 ser data = Inl (UnicodeDecodeError msg)"
  then show "DeserializeAttributeContainer ser container_type (Some data) self
             = Raised (IOError (''Unable to decode serialized data: '' @ msg))
                 (profiler_StopTiming container_type
                    (profiler_StartTiming container_type self))"
    by (simp add: DeserializeAttributeContainer_nonempty Let_def)
next
  assume "data \<noteq> [] \<and> decode_utf8 ser data = Inr serialized_string
          \<and> (ReadSerialized ser serialized_string = Inl (ValueError msg)
             \<or> ReadSerialized ser serialized_string = Inl (TypeError msg))"
  then show "DeserializeAttributeContainer ser container_type (Some data) self
             = Raised (IOError (''Unable to read serialized data: '' @ msg))
                 (profiler_StopTiming container_type
                    (profiler_StartTiming container_type self))"
    by (auto simp add: DeserializeAttributeContainer_nonempty Let_def)
qed

theorem DeserializeAttributeContainer_empty_witness:
  "DeserializeAttributeContainer brace_serializer ''event'' (Some []) profiled_store
     = Returned None profiled_store
   \<and> serializers_profiler profiled_store = Some []
   \<and> DeserializeAttributeContainer brace_serializer ''event'' (Some [0xFF]) profiled_store
     = Raised (IOError ''Unable to decode serialized data: invalid start byte'')
         (profiled_store
            \<lparr> serializers_profiler := Some [StartTiming ''event'', StopTiming ''event''] \<rparr>)
   \<and> DeserializeAttributeContainer brace_serializer ''event'' (Some [0x41]) profiled_store
     = Raised (IOError ''Unable to read serialized data: No JSON object could be decoded'')
         (profiled_store
            \<lparr> serializers_profiler := Some [StartTiming ''event'', StopTiming ''event''] \<rparr>)"
proof -
  have timed:
    "profiler_StopTiming ''event'' (profiler_StartTiming ''event'' profiled_store)
     = profiled_store
         \<lparr> serializers_profiler := Some [StartTiming ''event'', StopTiming ''event''] \<rparr>"
    by (simp add: profiler_defs profiled_store_def memory_defs)
  have set: "serializers_profiler profiled_store = Some []"
    by (simp add: profiled_store_def)
  have d1: "decode_utf8 brace_serializer [0xFF]
            = Inl (UnicodeDecodeError ''invalid start byte'')"
    by (simp add: brace_serializer_def seven_bit_decode_def)
  have d2: "decode_utf8 brace_serializer [0x41] = Inr ''A''"
    by code_simp
  have r2: "ReadSerialized brace_serializer ''A''
            = Inl (ValueError ''No JSON object could be decoded'')"
    by (simp add: brace_serializer_def brace_ReadSerialized_def)
  note inst = DeserializeAttributeContainer_empty
    [where ser = brace_serializer and container_type = "''event''" and self = profiled_store]
  have e: "DeserializeAttributeContainer brace_serializer ''event'' (Some []) profiled_store
           = Returned None profiled_store"
    by (rule inst [THEN conjunct2, THEN conjunct1])
  have u: "DeserializeAttributeContainer brace_serializer ''event'' (Some [0xFF]) profiled_store
           = Raised (IOError (''Unable to decode serialized data: '' @ ''invalid start byte''))
               (profiler_StopTiming ''event'' (profiler_StartTiming ''event'' profiled_store))"
    by (rule inst [THEN conjunct2, THEN conjunct2, THEN conjunct1, THEN mp]) (simp add: d1)
  have v: "DeserializeAttributeContainer brace_serializer ''event'' (Some [0x41]) profiled_store
           = Raised (IOError (''Unable to read serialized data: ''
                              @ ''No JSON object could be decoded''))
               (profiler_StopTiming ''event'' (profiler_StartTiming ''event'' profiled_store))"
    by (rule inst [where serialized_string = "''A''",
          THEN conjunct2, THEN conjunct2, THEN conjunct2, THEN mp])
       (simp add: d2 r2)
  from e set u v timed show ?thesis
    by simp
qed

section \<open>Leaving a storage reader\<close>

text \<open>
  C9. A \<^verbatim>\<open>with\<close> statement over a storage reader calls \<^verbatim>\<open>Close\<close> once on the
  state the body left, on both exit paths: when the body returns, the statement ends
  the way \<^verbatim>\<open>Close\<close> ends; when the body raises, \<^verbatim>\<open>Close\<close> is called all the same
  and the body's exception is raised again (or the exception of \<^verbatim>\<open>Close\<close>, if it
  raises one).
\<close>

theorem StorageReader_with_closes:
  "with_statement StorageReader_enter (StorageReader_exit Close) body self
   = (case body self self of
        Returned u r \<Rightarrow>
          (case Close r of
             Returned u' r' \<Rightarrow> Returned () r'
           | Raised e r' \<Rightarrow> Raised e r')
      | Raised e r \<Rightarrow>
          (case Close r of
             Returned u' r' \<Rightarrow> Raised e r'
           | Raised e' r' \<Rightarrow> Raised e' r'))"
  by (simp add: with_statement_def StorageReader_enter_def StorageReader_exit_def
      split: outcome.splits)

theorem StorageReader_with_closes_witness:
  "with_statement StorageReader_enter (StorageReader_exit counting_Close) failing_body
     \<lparr> reader_is_open = True, close_calls = 0, reads = 0 \<rparr>
   = Raised (IOError ''Unable to read serialized data: truncated'')
       \<lparr> reader_is_open = False, close_calls = 1, reads = 1 \<rparr>"
  using StorageReader_with_closes [of counting_Close failing_body
      "\<lparr> reader_is_open = True, close_calls = 0, reads = 0 \<rparr>"]
  by (simp add: counting_Close_def failing_body_def)

end
